theory Spec2Isabelle
  imports Complex_Main
begin

section \<open>JavaScript values and the environment\<close>

text \<open>
  The drivers are JavaScript classes. A JavaScript number is modelled as a real number or
  the value NaN: rounding and overflow of doubles are not modelled, the NaN tests of the
  code are. A value of type \<open>jsnum\<close> is a number the code holds, or the result of the
  numeric coercion \<open>+x\<close> of a value it holds.
\<close>

datatype jsnum = Num real | NaN

text \<open>\<open>Number.isNaN(+x)\<close> and the global \<open>isNaN(x)\<close>.\<close>

fun isNaN :: "jsnum \<Rightarrow> bool" where
  "isNaN NaN = True"
| "isNaN (Num x) = False"

text \<open>
  \<open>a === b\<close> on numbers (and \<open>a == b\<close>, which is the same on two numbers): NaN is
  equal to nothing, itself included.
\<close>

fun strict_eq :: "jsnum \<Rightarrow> jsnum \<Rightarrow> bool" where
  "strict_eq (Num a) (Num b) = (a = b)"
| "strict_eq _ _ = False"

text \<open>
  \<open>a / b\<close> on two finite numbers: JavaScript divides by zero without an error, the
  quotient is then infinite or NaN (HOL's \<open>a / 0\<close> is \<open>0\<close>).
\<close>

datatype quotient = Quotient real | PosInfinity | NegInfinity | NaNQuotient

definition js_div :: "real \<Rightarrow> real \<Rightarrow> quotient" where
  "js_div a b =
     (if b \<noteq> 0 then Quotient (a / b)
      else if 0 < a then PosInfinity else if a < 0 then NegInfinity else NaNQuotient)"

text \<open>\<open>q > c\<close> for a finite \<open>c\<close>; false when \<open>q\<close> is NaN.\<close>

fun js_gt :: "quotient \<Rightarrow> real \<Rightarrow> bool" where
  "js_gt (Quotient x) c = (c < x)"
| "js_gt PosInfinity c = True"
| "js_gt NegInfinity c = False"
| "js_gt NaNQuotient c = False"

text \<open>
  Arithmetic on numbers that may be infinite or NaN, as a quotient is: \<open>- a\<close>,
  \<open>a + b\<close>, \<open>a * b\<close>. NaN absorbs, the sum of the two infinities is NaN and so is
  the product of an infinity and zero.
\<close>

fun js_neg :: "quotient \<Rightarrow> quotient" where
  "js_neg (Quotient x) = Quotient (- x)"
| "js_neg PosInfinity = NegInfinity"
| "js_neg NegInfinity = PosInfinity"
| "js_neg NaNQuotient = NaNQuotient"

fun js_add :: "quotient \<Rightarrow> quotient \<Rightarrow> quotient" where
  "js_add (Quotient x) (Quotient y) = Quotient (x + y)"
| "js_add (Quotient x) PosInfinity = PosInfinity"
| "js_add (Quotient x) NegInfinity = NegInfinity"
| "js_add PosInfinity (Quotient y) = PosInfinity"
| "js_add PosInfinity PosInfinity = PosInfinity"
| "js_add PosInfinity NegInfinity = NaNQuotient"
| "js_add NegInfinity (Quotient y) = NegInfinity"
| "js_add NegInfinity PosInfinity = NaNQuotient"
| "js_add NegInfinity NegInfinity = NegInfinity"
| "js_add NaNQuotient b = NaNQuotient"
| "js_add a NaNQuotient = NaNQuotient"

fun js_mul :: "quotient \<Rightarrow> quotient \<Rightarrow> quotient" where
  "js_mul (Quotient x) (Quotient y) = Quotient (x * y)"
| "js_mul (Quotient x) PosInfinity =
     (if x = 0 then NaNQuotient else if 0 < x then PosInfinity else NegInfinity)"
| "js_mul (Quotient x) NegInfinity =
     (if x = 0 then NaNQuotient else if 0 < x then NegInfinity else PosInfinity)"
| "js_mul PosInfinity (Quotient y) =
     (if y = 0 then NaNQuotient else if 0 < y then PosInfinity else NegInfinity)"
| "js_mul NegInfinity (Quotient y) =
     (if y = 0 then NaNQuotient else if 0 < y then NegInfinity else PosInfinity)"
| "js_mul PosInfinity PosInfinity = PosInfinity"
| "js_mul PosInfinity NegInfinity = NegInfinity"
| "js_mul NegInfinity PosInfinity = NegInfinity"
| "js_mul NegInfinity NegInfinity = PosInfinity"
| "js_mul NaNQuotient b = NaNQuotient"
| "js_mul a NaNQuotient = NaNQuotient"

text \<open>
  \<open>a / d\<close> where \<open>d\<close> is a finite number that is not the negative zero (a count, a
  constant).
\<close>

fun js_over :: "quotient \<Rightarrow> real \<Rightarrow> quotient" where
  "js_over (Quotient x) d = js_div x d"
| "js_over PosInfinity d = (if d < 0 then NegInfinity else PosInfinity)"
| "js_over NegInfinity d = (if d < 0 then PosInfinity else NegInfinity)"
| "js_over NaNQuotient d = NaNQuotient"

text \<open>
  The values the code is handed: settings, flow-card and listener arguments, readings.
  Arrays and other objects are not modelled.
\<close>

datatype jsval = NumV jsnum | StrV string | BoolV bool | NullV | UndefinedV

text \<open>
  The numeric coercion \<open>+v\<close>, which \<open>isNaN(v)\<close> and arithmetic apply as well. The
  number a string denotes (NaN for a string that is no numeric literal, 0 for the empty
  string) is taken as the parameter \<open>strnum\<close>.
\<close>

fun ToNumber :: "(string \<Rightarrow> jsnum) \<Rightarrow> jsval \<Rightarrow> jsnum" where
  "ToNumber strnum (NumV n) = n"
| "ToNumber strnum (StrV str) = strnum str"
| "ToNumber strnum (BoolV b) = Num (if b then 1 else 0)"
| "ToNumber strnum NullV = Num 0"
| "ToNumber strnum UndefinedV = NaN"

text \<open>\<open>a === b\<close> on values: no coercion, values of different types are different.\<close>

fun strict_equals :: "jsval \<Rightarrow> jsval \<Rightarrow> bool" where
  "strict_equals (NumV a) (NumV b) = strict_eq a b"
| "strict_equals (StrV a) (StrV b) = (a = b)"
| "strict_equals (BoolV a) (BoolV b) = (a = b)"
| "strict_equals NullV NullV = True"
| "strict_equals UndefinedV UndefinedV = True"
| "strict_equals _ _ = False"

text \<open>\<open>v == undefined\<close>: true of \<open>undefined\<close> and of \<open>null\<close>, of nothing else.\<close>

definition eq_undefined :: "jsval \<Rightarrow> bool" where
  "eq_undefined v = (v = UndefinedV \<or> v = NullV)"

text \<open>Values published by \<open>setCapabilityValue\<close> or kept by \<open>setStoreValue\<close>.\<close>

datatype capval = CBool bool | CStr string | CNum jsnum | CQuot quotient

text \<open>The response object of \<open>setDevicePoint\<close>; the code reads its field \<open>ok\<close>.\<close>

record response =
  ok :: bool

text \<open>
  One call of the cloud client either rejects (the \<open>catch\<close> branch runs) or resolves
  with a value. The environment of a retry loop is the script of the outcomes of its
  successive calls.
\<close>

datatype 'a outcome = Throws | Returns 'a

type_synonym write_outcome = "response option outcome"

text \<open>
  A property name of the object sent to \<open>setDevicePoint\<close>: a parameter id, or the name
  \<open>undefined\<close> (\<open>None\<close>) that \<open>keyMap[k]\<close> yields for a setting without an id.
\<close>

type_synonym pointkey = "nat option"

text \<open>What the device does to the outside world, in order.\<close>

datatype effect =
    SetUnavailable
  | SetAvailable
  | Sleep nat
  | SetDevicePoint string "(pointkey \<times> jsval) list"
  | SetCapabilityValue string capval
  | TriggerMaxPowerChanged int
  | SetSettings "(string \<times> jsval) list"
  | SetStoreValue string capval
  | GetDevicePoints string string
  | Call_setHeaterState string bool jsnum

definition retryOnErrorWaitTime :: nat where
  "retryOnErrorWaitTime = 10000"

section \<open>Decimal strings\<close>

text \<open>
  \<open>x.toFixed(d)\<close> is the decimal string of \<open>x\<close> with \<open>d\<close> digits after the point:
  a minus sign when \<open>x < 0\<close>, then the integer \<open>n\<close> nearest to \<open>|x| * 10^d\<close> (the larger
  one on a tie) written with the point before its last \<open>d\<close> digits. Two such strings are
  equal when sign, \<open>n\<close> and \<open>d\<close> are, so the string is modelled by the three;
  \<open>(-0.04).toFixed(1)\<close> is \<open>"-0.0"\<close>, a string different from \<open>"0.0"\<close>.
\<close>

datatype fixed = Fixed (negative: bool) (mantissa: nat) (decimals: nat)

definition toFixed :: "nat \<Rightarrow> real \<Rightarrow> fixed" where
  "toFixed d x = Fixed (x < 0) (nat \<lfloor>\<bar>x\<bar> * 10 ^ d + 1 / 2\<rfloor>) d"

text \<open>The number a decimal string denotes (\<open>parseFloat\<close>, and the coercion in arithmetic).\<close>

definition fixed_num :: "fixed \<Rightarrow> real" where
  "fixed_num k = (if negative k then - 1 else 1) * real (mantissa k) / 10 ^ decimals k"

section \<open>The device\<close>

text \<open>
  The two source files are two versions of the class \<open>MyHoiaxDevice\<close>:
  \<open>src/unnamed/part_000\<close> (static leakage constant, spot-price guard) and
  \<open>src/drivers/hiax-connected-200/device.js\<close> (histogram estimator). The record has the
  fields the modelled methods of either read or write, the availability flag Homey keeps
  for the device, the store value \<open>logLeakage\<close> reads back, and the trace of effects.
  Fields that the code only ever sets together are one optional tuple, \<open>None\<close> for
  \<open>undefined\<close>: \<open>prevRelation\<close> is (prevRelationTime, prevRelationUse,
  prevRelationLeak). Times are milliseconds. Calls of \<open>this.log\<close> are left out.

  \<open>outsideTemp\<close> is the value \<open>setAmbientTemp\<close> of \<open>part_000\<close> was given, as it was
  given: the method compares it with \<open>===\<close>.

  The estimator of \<open>device.js\<close> divides by logged differences that may be 0, so its
  numbers may be infinite or NaN. Its fields are \<open>leakageConstant_200\<close>,
  \<open>accumulatedLeakage_200\<close> and \<open>currentLeakage\<close>, \<open>outsideTemp_200\<close> (the number
  \<open>this.outsideTemp\<close> coerces to; \<open>setAmbientTemp\<close> of that file lets no value in
  whose coercion is NaN), and \<open>prevPower\<close>, \<open>prevTemp\<close>, \<open>prevStored\<close> (the number the
  remembered reading coerces to, \<open>None\<close> for a reading that \<open>== undefined\<close>) with
  \<open>prevTime\<close>.
\<close>

record leak_entry =
  powDiff :: fixed
  tempDiff :: fixed
  timeDiff :: int
  storeDiff :: fixed
  outerTempDiff :: fixed

record device =
  available :: bool
  is_on :: bool
  max_power :: jsnum
  HeaterNomPower :: int
  HeaterNomPower2 :: int
  max_power_capability_name :: string
  outsideTemp :: jsval
  tankVolume :: int
  leakageConstant :: real
  accumulatedLeakage :: real
  prevAccumTime :: int
  prevRelation :: "(int \<times> real \<times> real) option"
  store_prevAccumTime :: "int option"
  brokenSpotPrice :: bool
  deviceData :: "(string \<times> jsval) list"
  outsideTemp_200 :: real
  leakageConstant_200 :: quotient
  accumulatedLeakage_200 :: quotient
  currentLeakage :: quotient
  prevPower :: "real option"
  prevTemp :: "real option"
  prevStored :: "real option"
  prevTime :: int
  pastLeakage :: "leak_entry list"
  trace :: "effect list"

definition emit :: "effect \<Rightarrow> device \<Rightarrow> device" where
  "emit e s = s\<lparr>trace := trace s @ [e]\<rparr>"

definition setUnavailable :: "device \<Rightarrow> device" where
  "setUnavailable s = emit SetUnavailable (s\<lparr>available := False\<rparr>)"

definition setAvailable :: "device \<Rightarrow> device" where
  "setAvailable s = emit SetAvailable (s\<lparr>available := True\<rparr>)"

definition sleep :: "nat \<Rightarrow> device \<Rightarrow> device" where
  "sleep ms s = emit (Sleep ms) s"

text \<open>The loop condition \<open>!response || response.ok === false\<close>.\<close>

fun must_retry :: "response option \<Rightarrow> bool" where
  "must_retry None = True"
| "must_retry (Some r) = (\<not> ok r)"

text \<open>
  The retry loop around \<open>setDevicePoint\<close>, the same in \<open>setHeaterState\<close>,
  \<open>setAmbientTemp\<close> and \<open>onSettings\<close>:
  \<^verbatim>\<open>
  while (!response || response.ok === false) {
    try { response = await this.oAuth2Client.setDevicePoint(deviceId, keyChange); }
    catch (err) { this.setUnavailable(...); await sleep(retryOnErrorWaitTime); }
  }\<close>
  The loop has no bound. The script \<open>env\<close> gives the outcome of each call; \<open>None\<close>
  says the loop is still running when the script ends. A call that throws leaves
  \<open>response\<close> as it was.
\<close>

fun retry_setDevicePoint ::
  "string \<Rightarrow> (pointkey \<times> jsval) list \<Rightarrow> response option \<Rightarrow> write_outcome list \<Rightarrow> device
   \<Rightarrow> (write_outcome list \<times> device) option" where
  "retry_setDevicePoint deviceId pts resp env s =
     (if must_retry resp then
        (case env of
           [] \<Rightarrow> None
         | Throws # env' \<Rightarrow>
             retry_setDevicePoint deviceId pts resp env'
               (sleep retryOnErrorWaitTime (setUnavailable (emit (SetDevicePoint deviceId pts) s)))
         | Returns r # env' \<Rightarrow>
             retry_setDevicePoint deviceId pts r env' (emit (SetDevicePoint deviceId pts) s))
      else Some (env, s))"

declare retry_setDevicePoint.simps [simp del]

section \<open>\<open>src/unnamed/part_000\<close>\<close>

text \<open>
  \<open>setHeaterState(deviceId, turnOn, newPower)\<close>, lines 68 to 99. The capability
  values are set without waiting, and the trigger is fired once the driver is ready: the
  trace has them where the code asks for them.
\<close>

definition newPowerText :: "jsnum \<Rightarrow> string" where
  "newPowerText newPower =
     (if strict_eq newPower (Num 1) then ''low_power''
      else if strict_eq newPower (Num 2) then ''medium_power'' else ''high_power'')"

definition newPowerWatt :: "device \<Rightarrow> jsnum \<Rightarrow> int" where
  "newPowerWatt s newPower =
     (if strict_eq newPower (Num 1) then HeaterNomPower s
      else if strict_eq newPower (Num 2) then HeaterNomPower2 s
      else HeaterNomPower s + HeaterNomPower2 s)"

definition setHeaterState_ack :: "bool \<Rightarrow> jsnum \<Rightarrow> device \<Rightarrow> device" where
  "setHeaterState_ack turnOn newPower s1 =
     (let s2 = setAvailable s1;
          s3 = emit (SetCapabilityValue ''onoff'' (CBool turnOn)) s2;
          s4 = emit (SetCapabilityValue (max_power_capability_name s3)
                       (CStr (newPowerText newPower))) s3;
          s5 = (if \<not> strict_eq newPower (max_power s4)
                then emit (TriggerMaxPowerChanged (newPowerWatt s4 newPower)) s4
                else s4)
      in s5\<lparr>is_on := turnOn, max_power := newPower\<rparr>)"

definition setHeaterState ::
  "string \<Rightarrow> bool \<Rightarrow> jsnum \<Rightarrow> write_outcome list \<Rightarrow> device
   \<Rightarrow> (write_outcome list \<times> device) option" where
  "setHeaterState deviceId turnOn newPower env s =
     (let power = (if turnOn then newPower else Num 0) in
      case retry_setDevicePoint deviceId [(Some 517, NumV power)] None env s of
        None \<Rightarrow> None
      | Some (env', s1) \<Rightarrow> Some (env', setHeaterState_ack turnOn newPower s1))"

text \<open>
  \<open>setAmbientTemp(deviceId, ambientTemp)\<close>, lines 101 to 120. The argument is the
  value the flow card or the listener hands over: line 102 coerces it for the NaN test
  and compares it as it is.
\<close>

definition setAmbientTemp ::
  "(string \<Rightarrow> jsnum) \<Rightarrow> string \<Rightarrow> jsval \<Rightarrow> write_outcome list \<Rightarrow> device
   \<Rightarrow> (write_outcome list \<times> device) option" where
  "setAmbientTemp strnum deviceId ambientTemp env s =
     (if isNaN (ToNumber strnum ambientTemp) \<or> strict_equals (outsideTemp s) ambientTemp
      then Some (env, s)
      else
        (let s1 = emit (SetSettings [(''ambient_temperature'', ambientTemp)]) s;
             s2 = s1\<lparr>outsideTemp := ambientTemp\<rparr>;
             keyChange = [(Some 100, outsideTemp s2)]
         in case retry_setDevicePoint deviceId keyChange None env s2 of
              None \<Rightarrow> None
            | Some (env', s3) \<Rightarrow> Some (env', setAvailable s3)))"


text \<open>Objects are association lists. \<open>obj[k]\<close> is \<open>undefined\<close> for a missing property.\<close>

definition get_prop :: "(string \<times> jsval) list \<Rightarrow> string \<Rightarrow> jsval" where
  "get_prop obj k = (case map_of obj k of None \<Rightarrow> UndefinedV | Some v \<Rightarrow> v)"

text \<open>\<open>obj[k] = v\<close>: overwrites the property, or adds it.\<close>

fun set_prop :: "'k \<Rightarrow> 'v \<Rightarrow> ('k \<times> 'v) list \<Rightarrow> ('k \<times> 'v) list" where
  "set_prop k v [] = [(k, v)]"
| "set_prop k v ((k', v') # obj) =
     (if k' = k then (k, v) # obj else (k', v') # set_prop k v obj)"

text \<open>
  \<open>String(v)\<close>. The decimal notation JavaScript gives a number is taken as the
  parameter \<open>numstr\<close>.
\<close>

fun String_js :: "(real \<Rightarrow> string) \<Rightarrow> jsval \<Rightarrow> string" where
  "String_js numstr (StrV s) = s"
| "String_js numstr UndefinedV = ''undefined''"
| "String_js numstr NullV = ''null''"
| "String_js numstr (NumV (Num x)) = numstr x"
| "String_js numstr (NumV NaN) = ''NaN''"
| "String_js numstr (BoolV b) = (if b then ''true'' else ''false'')"

text \<open>
  \<open>toSettings(newSettings)\<close>, lines 125 to 147: the object handed to
  \<open>super.setSettings\<close>. The unit after the leakage constant is taken as the parameter
  \<open>unit\<close>.
\<close>

definition toSetSettings ::
  "(real \<Rightarrow> string) \<Rightarrow> string \<Rightarrow> device \<Rightarrow> (string \<times> jsval) list \<Rightarrow> (string \<times> jsval) list" where
  "toSetSettings numstr unit s newSettings =
     (let str = (\<lambda>v. StrV (String_js numstr v));
          o1 = newSettings;
          o2 = set_prop ''nordpool_price_region'' (str (get_prop o1 ''nordpool_price_region'')) o1;
          o3 = set_prop ''controling_device'' (str (get_prop o2 ''controling_device'')) o2;
          o4 = (if brokenSpotPrice s \<and> get_prop o3 ''controling_device'' = StrV ''6''
                then set_prop ''controling_device'' (StrV ''8'') o3 else o3);
          o5 = set_prop ''TankVolume'' (str (get_prop o4 ''TankVolume'')) o4;
          o6 = set_prop ''SerialNo'' (str (get_prop o5 ''SerialNo'')) o5;
          o7 = set_prop ''HeaterNomPower'' (str (get_prop o6 ''HeaterNomPower'')) o6;
          o8 = set_prop ''HeaterNomPower2'' (str (get_prop o7 ''HeaterNomPower2'')) o7;
          o9 = set_prop ''LeakageConstant'' (StrV (numstr (leakageConstant s) @ unit)) o8;
          o10 = set_prop ''systemId'' (str (get_prop (deviceData s) ''systemId'')) o9;
          o11 = set_prop ''systemName'' (str (get_prop (deviceData s) ''systemName'')) o10;
          o12 = set_prop ''deviceId'' (str (get_prop (deviceData s) ''deviceId'')) o11;
          o13 = set_prop ''deviceName'' (str (get_prop (deviceData s) ''deviceName'')) o12
      in o13)"









text \<open>
  \<open>logLeakage(totalUsage, temperature, inTank, debugTime)\<close>, lines 455 to 499.
  \<open>newTime\<close> is \<open>debugTime\<close>, or the clock when there is none. The three inputs are
  the values the caller hands over; the guard tests their numeric coercions, and the
  arithmetic coerces them again.
\<close>

datatype error = InvalidValues

text \<open>
  Lines 462 to 479, for a temperature that passed the guard. \<open>this.outsideTemp\<close> is
  coerced by the subtraction; if the result is NaN then so is \<open>timedLeakage\<close>, which is
  the one way it can be, and the branch of line 467 is not taken.
  \<open>store_prevAccumTime\<close> is the time that
  \<open>new Date(this.getStoreValue('prevAccumTime'))\<close> denotes, \<open>None\<close> for an invalid date,
  whose comparison is false; the store is taken to keep what \<open>setStoreValue\<close> is given.
\<close>

definition logLeakage_accum :: "(string \<Rightarrow> jsnum) \<Rightarrow> real \<Rightarrow> int \<Rightarrow> device \<Rightarrow> device" where
  "logLeakage_accum strnum temperature newTime s =
     (case ToNumber strnum (outsideTemp s) of
        NaN \<Rightarrow> s
      | Num ambient \<Rightarrow>
     (let outerTempDiff' = temperature - ambient;
          accumTimeDiff = newTime - prevAccumTime s;
          currentLeakage' = leakageConstant s * outerTempDiff';
          timedLeakage = (currentLeakage' * real_of_int accumTimeDiff) / (60 * 60 * 1000000);
          s1 = s\<lparr>prevAccumTime := newTime\<rparr>;
          s2 = s1\<lparr>accumulatedLeakage := accumulatedLeakage s1 + timedLeakage\<rparr>;
          s3 = emit (SetCapabilityValue ''measure_power.leak'' (CNum (Num currentLeakage'))) s2;
          s4 = emit (SetCapabilityValue ''meter_power.leak_accum''
                       (CNum (Num (accumulatedLeakage s3)))) s3
      in case store_prevAccumTime s4 of
           None \<Rightarrow> s4
         | Some prevUpdateTime \<Rightarrow>
             if prevAccumTime s4 - prevUpdateTime > 24 * 60 * 60 * 1000 then
               (let s5 = emit (SetStoreValue ''prevAccumTime''
                                 (CNum (Num (real_of_int (prevAccumTime s4))))) s4;
                    s6 = emit (SetStoreValue ''accumulatedLeakage''
                                 (CNum (Num (accumulatedLeakage s5)))) s5
                in s6\<lparr>store_prevAccumTime := Some (prevAccumTime s4)\<rparr>)
             else s4))"

text \<open>Line 493.\<close>

definition leakRelation :: "real \<Rightarrow> real \<Rightarrow> quotient" where
  "leakRelation leakedEnergy addedEnergy =
     (if addedEnergy > leakedEnergy then js_div (100 * leakedEnergy) addedEnergy
      else Quotient 100)"

text \<open>Lines 481 to 498.\<close>

definition logLeakage_relation :: "real \<Rightarrow> int \<Rightarrow> device \<Rightarrow> device" where
  "logLeakage_relation totalUsage newTime s =
     (case prevRelation s of
        None \<Rightarrow> s\<lparr>prevRelation := Some (newTime, totalUsage, accumulatedLeakage s)\<rparr>
      | Some (prevRelationTime, prevRelationUse, prevRelationLeak) \<Rightarrow>
          if newTime - prevRelationTime > 24 * 60 * 60 * 1000 then
            (let leakedEnergy = accumulatedLeakage s - prevRelationLeak;
                 addedEnergy = totalUsage - prevRelationUse;
                 s1 = s\<lparr>prevRelation := Some (newTime, totalUsage, accumulatedLeakage s)\<rparr>
             in emit (SetCapabilityValue ''measure_humidity.leak_relation''
                        (CQuot (leakRelation leakedEnergy addedEnergy))) s1)
          else s)"

text \<open>The result is the exception thrown, if any, and the state the call leaves.\<close>

definition logLeakage ::
  "(string \<Rightarrow> jsnum) \<Rightarrow> jsval \<Rightarrow> jsval \<Rightarrow> jsval \<Rightarrow> int \<Rightarrow> device
   \<Rightarrow> (error + unit) \<times> device" where
  "logLeakage strnum totalUsage temperature inTank newTime s =
     (if isNaN (ToNumber strnum totalUsage) \<or> isNaN (ToNumber strnum temperature)
         \<or> isNaN (ToNumber strnum inTank)
      then (Inl InvalidValues, s)
      else
        (case (ToNumber strnum totalUsage, ToNumber strnum temperature) of
           (Num u, Num t) \<Rightarrow>
             (Inr (), logLeakage_relation u newTime (logLeakage_accum strnum t newTime s))
         | _ \<Rightarrow> (Inl InvalidValues, s)))"











section \<open>\<open>src/drivers/hiax-connected-200/device.js\<close>\<close>




text \<open>
  \<open>logLeakage(total_usage, temperature, in_tank, debug_time)\<close>, lines 307 to 458.
\<close>

definition LOGITEMS :: nat where
  "LOGITEMS = 200"

text \<open>
  Lines 340 to 344: every entry moves up one index, the entry at index
  \<open>LOGITEMS - 1\<close> is dropped and the new one is put at index 0. The array has no holes:
  it starts empty and grows from index 0.
\<close>

definition push_sample :: "leak_entry \<Rightarrow> leak_entry list \<Rightarrow> leak_entry list" where
  "push_sample entry past = take LOGITEMS (entry # past)"

text \<open>
  Line 359: \<open>powDiff == 0\<close> and \<open>tempDiff <= 0\<close> compare a decimal string with a number,
  so the string's number is compared.
\<close>

definition qualifies :: "leak_entry \<Rightarrow> bool" where
  "qualifies e = (fixed_num (powDiff e) = 0 \<and> fixed_num (tempDiff e) \<le> 0)"

text \<open>
  Lines 356 to 367: the object \<open>temp_diffs\<close>, keyed by the string \<open>tempDiff\<close>, in the
  order the keys were added, and \<open>include_count\<close>.
\<close>

fun count_temp_diffs ::
  "leak_entry list \<Rightarrow> (fixed \<times> nat) list \<times> nat \<Rightarrow> (fixed \<times> nat) list \<times> nat" where
  "count_temp_diffs [] acc = acc"
| "count_temp_diffs (e # es) (temp_diffs, include_count) =
     count_temp_diffs es
       (if qualifies e then
          (case map_of temp_diffs (tempDiff e) of
             Some c \<Rightarrow> (set_prop (tempDiff e) (c + 1) temp_diffs, include_count + 1)
           | None \<Rightarrow> (set_prop (tempDiff e) 1 temp_diffs, include_count + 1))
        else (temp_diffs, include_count))"

text \<open>\<open>temp_diffs[k]\<close> where the code has made sure that \<open>k\<close> is a key.\<close>

definition count_of :: "(fixed \<times> nat) list \<Rightarrow> fixed \<Rightarrow> nat" where
  "count_of temp_diffs k = (case map_of temp_diffs k of None \<Rightarrow> 0 | Some c \<Rightarrow> c)"

text \<open>
  Lines 369 and 370: the keys, sorted by falling count. The sort is stable, keys of equal
  count stay in the order they were added.
\<close>

definition sortedKeys :: "(fixed \<times> nat) list \<Rightarrow> fixed list" where
  "sortedKeys temp_diffs =
     sort_key (\<lambda>k. - int (count_of temp_diffs k)) (map fst temp_diffs)"

text \<open>\<open>parseInt(x)\<close> of a number: the digits before the point.\<close>

definition parseInt_num :: "real \<Rightarrow> int" where
  "parseInt_num x = (if 0 \<le> x then \<lfloor>x\<rfloor> else \<lceil>x\<rceil>)"

text \<open>Lines 386 to 415: the neighbour of \<open>key0\<close> to use with it. The result is (key0, key1).\<close>

definition select_neighbour ::
  "(fixed \<times> nat) list \<Rightarrow> fixed \<Rightarrow> fixed option \<times> fixed option" where
  "select_neighbour temp_diffs key0 =
     (let key1a = toFixed 1 (fixed_num key0 - 0.1);
          key1b = toFixed 1 (fixed_num key0 + 0.1);
          in_a = (key1a \<in> fst ` set temp_diffs);
          in_b = (key1b \<in> fst ` set temp_diffs)
      in if \<not> (in_a \<or> in_b) then (Some key0, None)
         else if \<not> in_a then (Some key0, Some key1b)
         else if \<not> in_b then (Some key0, Some key1a)
         else if count_of temp_diffs key1a \<ge> count_of temp_diffs key1b then
           (if count_of temp_diffs key1a > 2 * count_of temp_diffs key1b
            then (Some key0, Some key1a) else (None, None))
         else
           (if count_of temp_diffs key1b > 2 * count_of temp_diffs key1a
            then (Some key0, Some key1b) else (None, None)))"

text \<open>Line 378: \<open>key0\<close> and \<open>key1\<close> are not neighbours.\<close>

definition not_neighbours :: "fixed \<Rightarrow> fixed \<Rightarrow> bool" where
  "not_neighbours k0 k1 =
     (\<bar>parseInt_num (fixed_num k1 * 10) - parseInt_num (fixed_num k0 * 10)\<bar> \<noteq> 1)"

text \<open>
  Lines 372 to 416. \<open>None\<close> for \<open>key0\<close> is the \<open>undefined\<close> that rejects the data.
  Without a key, \<open>include_count\<close> is 0 and \<open>key0\<close> is undefined from the start.
\<close>

definition select_keys ::
  "(fixed \<times> nat) list \<Rightarrow> nat \<Rightarrow> fixed option \<times> fixed option" where
  "select_keys temp_diffs include_count =
     (case sortedKeys temp_diffs of
        [] \<Rightarrow> (None, None)
      | k0 # rest \<Rightarrow>
          if include_count = 0 \<or> count_of temp_diffs k0 < 10 then (None, None)
          else
            (case rest of
               k1 # _ \<Rightarrow>
                 if not_neighbours k0 k1 then
                   (if count_of temp_diffs k0 < 3 * count_of temp_diffs k1
                    then (None, None) else (Some k0, None))
                 else select_neighbour temp_diffs k0
             | [] \<Rightarrow> select_neighbour temp_diffs k0))"

text \<open>
  Line 434, the term \<open>tempDiff * 1000000. / (outerTempDiff * timeDiff)\<close> of one entry.
  The two decimal strings are coerced. The divisor is 0 when the tank was at the ambient
  temperature (\<open>outerTempDiff\<close> \<open>"0.0"\<close> or \<open>"-0.0"\<close>) or no time had passed; its
  sign is then the product of the signs of its factors, the term is infinite with the
  sign that the division gives, or NaN when the temperature did not change either.
\<close>

definition temp_drop_term :: "leak_entry \<Rightarrow> quotient" where
  "temp_drop_term e =
     (let dividend = fixed_num (tempDiff e) * 1000000;
          divisor = fixed_num (outerTempDiff e) * real_of_int (timeDiff e);
          divisor_negative = (negative (outerTempDiff e) \<noteq> (timeDiff e < 0))
      in if divisor \<noteq> 0 then Quotient (dividend / divisor)
         else if dividend = 0 then NaNQuotient
         else if (dividend < 0) = divisor_negative then PosInfinity
         else NegInfinity)"

text \<open>
  Lines 431 to 436. The loop takes every entry whose \<open>tempDiff\<close> is one of the keys,
  also an entry that did not qualify for the count.
\<close>

fun temp_drop_sum ::
  "fixed \<Rightarrow> fixed option \<Rightarrow> leak_entry list \<Rightarrow> quotient \<Rightarrow> quotient" where
  "temp_drop_sum key0 key1 [] temp_drop_val = temp_drop_val"
| "temp_drop_sum key0 key1 (e # es) temp_drop_val =
     temp_drop_sum key0 key1 es
       (if tempDiff e = key0 \<or> Some (tempDiff e) = key1
        then js_add temp_drop_val (js_neg (temp_drop_term e))
        else temp_drop_val)"

text \<open>Lines 430 to 439.\<close>

definition new_leakageConstant ::
  "(fixed \<times> nat) list \<Rightarrow> fixed \<Rightarrow> fixed option \<Rightarrow> device \<Rightarrow> quotient" where
  "new_leakageConstant temp_diffs key0 key1 s =
     (let temp_drop_count =
            count_of temp_diffs key0 +
              (case key1 of None \<Rightarrow> 0 | Some k1 \<Rightarrow> count_of temp_diffs k1);
          temp_drop_val = temp_drop_sum key0 key1 (pastLeakage s) (Quotient 0)
      in js_over
           (js_mul (js_mul (Quotient 4.187) temp_drop_val)
              (Quotient (real_of_int (tankVolume s))))
           (real temp_drop_count))"

text \<open>Lines 443 to 457.\<close>

definition logLeakage_200_tail :: "real \<Rightarrow> int \<Rightarrow> device \<Rightarrow> device" where
  "logLeakage_200_tail outerTempDiff' new_time s =
     (let accum_time_diff = new_time - prevAccumTime s;
          s1 = s\<lparr>prevAccumTime := new_time\<rparr>;
          s2 = s1\<lparr>currentLeakage := js_mul (leakageConstant_200 s1) (Quotient outerTempDiff')\<rparr>;
          s3 = s2\<lparr>accumulatedLeakage_200 :=
                   js_add (accumulatedLeakage_200 s2)
                     (js_over
                        (js_mul (currentLeakage s2) (Quotient (real_of_int accum_time_diff)))
                        (60 * 60 * 1000000))\<rparr>;
          s4 = emit (SetStoreValue ''prevAccumTime''
                       (CNum (Num (real_of_int (prevAccumTime s3))))) s3;
          s5 = emit (SetStoreValue ''currentLeakage'' (CQuot (currentLeakage s4))) s4;
          s6 = emit (SetStoreValue ''leakageConstant'' (CQuot (leakageConstant_200 s5))) s5;
          s7 = emit (SetStoreValue ''accumulatedLeakage''
                       (CQuot (accumulatedLeakage_200 s6))) s6;
          s8 = emit (SetCapabilityValue ''measure_power.leak''
                       (CQuot (currentLeakage s7))) s7
      in emit (SetCapabilityValue ''meter_power.leak_accum''
                 (CQuot (accumulatedLeakage_200 s8))) s8)"

text \<open>
  Lines 324 to 339: the entry for the new sample, \<open>prevData\<close>. \<open>prev\<close> is
  (prevPower, prevTemp, prevStored, prevTime) as the call found them.
\<close>

definition prevData ::
  "real \<Rightarrow> real \<Rightarrow> real \<Rightarrow> int \<Rightarrow> real \<times> real \<times> real \<times> int \<Rightarrow> device \<Rightarrow> leak_entry" where
  "prevData total_usage temperature in_tank new_time prev s =
     (case prev of (prevPower', prevTemp', prevStored', prevTime') \<Rightarrow>
      (let powDiff' = total_usage - prevPower';
           tempDiff' = temperature - prevTemp';
           storeDiff' = in_tank - prevStored';
           timeDiff' = new_time - prevTime';
           outerTempDiff' = temperature - outsideTemp_200 s
       in \<lparr>powDiff = toFixed 1 powDiff', tempDiff = toFixed 1 tempDiff',
           timeDiff = timeDiff', storeDiff = toFixed 2 storeDiff',
           outerTempDiff = toFixed 1 outerTempDiff'\<rparr>))"

text \<open>Lines 333 to 344: the device once the new sample is logged.\<close>

definition log_sample ::
  "real \<Rightarrow> real \<Rightarrow> real \<Rightarrow> int \<Rightarrow> real \<times> real \<times> real \<times> int \<Rightarrow> device \<Rightarrow> device" where
  "log_sample total_usage temperature in_tank new_time prev s =
     s\<lparr>pastLeakage :=
         push_sample (prevData total_usage temperature in_tank new_time prev s)
           (pastLeakage s)\<rparr>"

text \<open>
  Lines 323 to 457 without the assignments of lines 329 to 332, once the inputs are
  numbers and there is a previous sample.
\<close>

definition logLeakage_200_sample ::
  "real \<Rightarrow> real \<Rightarrow> real \<Rightarrow> int \<Rightarrow> real \<times> real \<times> real \<times> int \<Rightarrow> device \<Rightarrow> device" where
  "logLeakage_200_sample total_usage temperature in_tank new_time prev s =
     (let outerTempDiff' = temperature - outsideTemp_200 s;
          s2 = log_sample total_usage temperature in_tank new_time prev s;
          hist = count_temp_diffs (pastLeakage s2) ([], 0);
          temp_diffs = fst hist;
          include_count = snd hist;
          keys = select_keys temp_diffs include_count
      in case fst keys of
           None \<Rightarrow>
             if currentLeakage s2 = NaNQuotient \<or> currentLeakage s2 = Quotient 0 then s2
             else logLeakage_200_tail outerTempDiff' new_time s2
         | Some key0 \<Rightarrow>
             (let s3 = s2\<lparr>leakageConstant_200 :=
                            js_add (js_mul (Quotient 0.99) (leakageConstant_200 s2))
                              (js_mul (Quotient 0.01)
                                 (new_leakageConstant temp_diffs key0 (snd keys) s2))\<rparr>
              in logLeakage_200_tail outerTempDiff' new_time s3))"

text \<open>
  What \<open>this.prevPower = total_usage\<close> leaves in the field, for a value that passed the
  guard (so it is not \<open>undefined\<close>) and coerces to \<open>x\<close>.
\<close>

definition remembered :: "jsval \<Rightarrow> real \<Rightarrow> real option" where
  "remembered v x = (if eq_undefined v then None else Some x)"

text \<open>
  The whole of \<open>logLeakage\<close>. The three inputs are the values the caller hands over;
  \<open>isNaN\<close> coerces them, and so does the arithmetic. The assignments of lines 317 to 320
  and of lines 329 to 332 are the same and touch nothing the lines between read, so they
  are made once.
\<close>

definition logLeakage_200 ::
  "(string \<Rightarrow> jsnum) \<Rightarrow> jsval \<Rightarrow> jsval \<Rightarrow> jsval \<Rightarrow> int \<Rightarrow> device
   \<Rightarrow> (error + unit) \<times> device" where
  "logLeakage_200 strnum total_usage temperature in_tank new_time s =
     (if isNaN (ToNumber strnum total_usage) \<or> isNaN (ToNumber strnum temperature)
         \<or> isNaN (ToNumber strnum in_tank)
      then (Inl InvalidValues, s)
      else
        (case (ToNumber strnum total_usage, ToNumber strnum temperature,
               ToNumber strnum in_tank) of
           (Num u, Num t, Num st) \<Rightarrow>
             (let s1 = s\<lparr>prevPower := remembered total_usage u,
                         prevTemp := remembered temperature t,
                         prevStored := remembered in_tank st,
                         prevTime := new_time\<rparr>
              in case (prevPower s, prevTemp s, prevStored s) of
                   (Some prevPower', Some prevTemp', Some prevStored') \<Rightarrow>
                     (Inr (),
                      logLeakage_200_sample u t st new_time
                        (prevPower', prevTemp', prevStored', prevTime s) s1)
                 | _ \<Rightarrow> (Inr (), s1))
         | _ \<Rightarrow> (Inl InvalidValues, s)))"




section \<open>Notions used in the statements\<close>

text \<open>An attempt after which the write loop goes round again.\<close>

fun is_failure :: "write_outcome \<Rightarrow> bool" where
  "is_failure Throws = True"
| "is_failure (Returns r) = must_retry r"

text \<open>
  The effects of one round of the write loop: the request, and after a call that threw
  the two statements of the \<open>catch\<close> branch.
\<close>

fun attempt_effects ::
  "string \<Rightarrow> (pointkey \<times> jsval) list \<Rightarrow> write_outcome \<Rightarrow> effect list" where
  "attempt_effects d pts Throws =
     [SetDevicePoint d pts, SetUnavailable, Sleep retryOnErrorWaitTime]"
| "attempt_effects d pts (Returns r) = [SetDevicePoint d pts]"

text \<open>The effects a call adds to the trace.\<close>

definition new_effects :: "device \<Rightarrow> device \<Rightarrow> effect list" where
  "new_effects s s' = drop (length (trace s)) (trace s')"




text \<open>Two calls of \<open>setHeaterState\<close> with the same level, one after the other.\<close>

definition setHeaterState_twice ::
  "string \<Rightarrow> bool \<Rightarrow> bool \<Rightarrow> jsnum \<Rightarrow> write_outcome list \<Rightarrow> device
   \<Rightarrow> (write_outcome list \<times> device) option" where
  "setHeaterState_twice d on1 on2 p env s =
     (case setHeaterState d on1 p env s of
        None \<Rightarrow> None
      | Some (env1, s1) \<Rightarrow> setHeaterState d on2 p env1 s1)"

fun is_trigger :: "effect \<Rightarrow> bool" where
  "is_trigger (TriggerMaxPowerChanged w) = True"
| "is_trigger _ = False"



definition triggers :: "device \<Rightarrow> device \<Rightarrow> effect list" where
  "triggers s s' = filter is_trigger (new_effects s s')"



text \<open>
  A device as \<open>onOAuth2Init\<close> of \<open>part_000\<close> leaves a Connected 200 tank (lines 210 to
  230 and 281 to 282), with the clock at 0.
\<close>

definition device0 :: device where
  "device0 =
     \<lparr>available = True, is_on = True, max_power = Num 3,
      HeaterNomPower = 700, HeaterNomPower2 = 1300, max_power_capability_name = ''max_power'',
      outsideTemp = NumV (Num 24), tankVolume = 187, leakageConstant = 1.58,
      accumulatedLeakage = 0,
      prevAccumTime = 0, prevRelation = None, store_prevAccumTime = None,
      brokenSpotPrice = True, deviceData = [], outsideTemp_200 = 24,
      leakageConstant_200 = Quotient 1.58, accumulatedLeakage_200 = Quotient 0,
      currentLeakage = Quotient 0, prevPower = None, prevTemp = None, prevStored = None,
      prevTime = 0, pastLeakage = [], trace = []\<rparr>"

text \<open>The device a day after the leak relation was last taken, at use 10 and leak 0.\<close>

definition device_day :: device where
  "device_day = device0\<lparr>prevRelation := Some (0, 10, 0)\<rparr>"

text \<open>
  A device as \<open>onOAuth2Init\<close> of \<open>device.js\<close> leaves it with an empty store (lines
  134 to 149 and 179 to 180), with the clock at 0.
\<close>

definition device200_0 :: device where
  "device200_0 =
     \<lparr>available = True, is_on = True, max_power = Num 3,
      HeaterNomPower = 700, HeaterNomPower2 = 1300, max_power_capability_name = ''max_power'',
      outsideTemp = NumV (Num 24), tankVolume = 178, leakageConstant = 12.696,
      accumulatedLeakage = 0,
      prevAccumTime = 0, prevRelation = None, store_prevAccumTime = None,
      brokenSpotPrice = False, deviceData = [], outsideTemp_200 = 24,
      leakageConstant_200 = Quotient 12.696, accumulatedLeakage_200 = Quotient 0,
      currentLeakage = Quotient 0, prevPower = None, prevTemp = None, prevStored = None,
      prevTime = 0, pastLeakage = [], trace = []\<rparr>"

text \<open>
  A logged sample of five minutes without power use in which the tank, 10 degrees above
  the ambient temperature, cooled by the given number of tenths of a degree: \<open>powDiff\<close>
  \<open>"0.0"\<close>, \<open>tempDiff\<close> \<open>"-0.3"\<close> for 3 tenths, \<open>storeDiff\<close> \<open>"0.00"\<close>,
  \<open>outerTempDiff\<close> \<open>"10.0"\<close>.
\<close>

definition cooling_sample :: "nat \<Rightarrow> leak_entry" where
  "cooling_sample tenths =
     \<lparr>powDiff = Fixed False 0 1, tempDiff = Fixed True tenths 1, timeDiff = 300000,
      storeDiff = Fixed False 0 2, outerTempDiff = Fixed False 100 1\<rparr>"

text \<open>
  The scenario: a device of \<open>device.js\<close> with the constant it starts with and a tank
  of 178 litres is polled every five minutes. The first poll reads 40 degrees, every
  later one 0.3 degrees less than the one before; the total usage stays at 1000 and the
  stored energy at 10, and before each poll the ambient temperature is set to 10 degrees
  below the reading (\<open>setAmbientTemp\<close>, line 79). \<open>cooling_run n\<close> is the device after
  the first poll and \<open>n\<close> more, which log the \<open>n\<close> samples.
\<close>

definition cooling_poll :: "nat \<Rightarrow> device \<Rightarrow> device" where
  "cooling_poll i s =
     (let temperature = 40 - 0.3 * real i
      in snd (logLeakage_200 (\<lambda>str. NaN) (NumV (Num 1000)) (NumV (Num temperature))
                (NumV (Num 10)) (300000 * int i)
                (s\<lparr>outsideTemp_200 := temperature - 10\<rparr>)))"

fun cooling_run :: "nat \<Rightarrow> device \<Rightarrow> device" where
  "cooling_run 0 s = cooling_poll 0 s"
| "cooling_run (Suc n) s = cooling_poll (Suc n) (cooling_run n s)"

text \<open>
  The constant the logged samples imply, and the constant after \<open>n\<close> samples: as long
  as fewer than 10 are logged the update is skipped, from the tenth on every poll moves
  the constant one hundredth of the way to the implied one.
\<close>

definition k_implied :: real where
  "k_implied = 4.187 * 178 * (0.3 * 1000000 / (10 * 300000))"

definition k_after :: "nat \<Rightarrow> real" where
  "k_after n =
     (if n < 10 then 12.696 else k_implied - 0.99 ^ (n - 9) * (k_implied - 12.696))"

text \<open>What the device holds after the first poll and \<open>n\<close> more.\<close>

definition run_state :: "nat \<Rightarrow> device \<Rightarrow> bool" where
  "run_state n s =
     (prevPower s = Some 1000 \<and> prevTemp s = Some (40 - 0.3 * real n)
      \<and> prevStored s = Some 10 \<and> prevTime s = 300000 * int n
      \<and> pastLeakage s = replicate n (cooling_sample 3)
      \<and> tankVolume s = 178
      \<and> leakageConstant_200 s = Quotient (k_after n)
      \<and> (n < 10 \<longrightarrow> currentLeakage s = Quotient 0))"

text \<open>
  A device with 11 logged samples of 0.3 degrees and 4 older ones of 0.7 degrees, none
  of which was taken for an update. The previous reading was 34.3 degrees at time 0; the
  call with 34 degrees at 300000 ms, the ambient temperature being 24, logs the twelfth
  of 0.3 degrees.
\<close>

definition device_tie :: device where
  "device_tie =
     device200_0\<lparr>prevPower := Some 1000, prevTemp := Some 34.3, prevStored := Some 10,
                  prevTime := 0,
                  pastLeakage := replicate 11 (cooling_sample 3) @ replicate 4 (cooling_sample 7)\<rparr>"

definition tie_result :: device where
  "tie_result =
     snd (logLeakage_200 (\<lambda>str. NaN) (NumV (Num 1000)) (NumV (Num 34)) (NumV (Num 10))
            300000 device_tie)"

text \<open>The same with 10 logged samples of 0.3 degrees: the call logs the eleventh.\<close>

definition device_noisy :: device where
  "device_noisy =
     device200_0\<lparr>prevPower := Some 1000, prevTemp := Some 34.3, prevStored := Some 10,
                  prevTime := 0,
                  pastLeakage := replicate 10 (cooling_sample 3) @ replicate 4 (cooling_sample 7)\<rparr>"

text \<open>
  A logged sample of five minutes without power use in which the tank stayed at the
  ambient temperature: \<open>tempDiff\<close> \<open>"0.0"\<close> and \<open>outerTempDiff\<close> \<open>"0.0"\<close>. A
  device that has logged 9 of them with the ambient temperature it starts with, none of
  which was taken for an update, and the call that logs the tenth.
\<close>

definition idle_sample :: leak_entry where
  "idle_sample =
     \<lparr>powDiff = Fixed False 0 1, tempDiff = Fixed False 0 1, timeDiff = 300000,
      storeDiff = Fixed False 0 2, outerTempDiff = Fixed False 0 1\<rparr>"

definition device_idle :: device where
  "device_idle =
     device200_0\<lparr>prevPower := Some 1000, prevTemp := Some 24, prevStored := Some 10,
                  prevTime := 0, pastLeakage := replicate 9 idle_sample\<rparr>"

definition idle_result :: device where
  "idle_result =
     snd (logLeakage_200 (\<lambda>str. NaN) (NumV (Num 1000)) (NumV (Num 24)) (NumV (Num 10))
            300000 device_idle)"








section \<open>Properties\<close>

subsection \<open>The retry loop\<close>

lemma retry_fails:
  "\<forall>x \<in> set fails. is_failure x \<Longrightarrow> must_retry resp \<Longrightarrow> \<not> must_retry r \<Longrightarrow>
   retry_setDevicePoint d pts resp (fails @ Returns r # rest) s =
     Some (rest, s\<lparr>available := (if Throws \<in> set fails then False else available s),
                   trace := trace s @ concat (map (attempt_effects d pts) fails) @ [SetDevicePoint d pts]\<rparr>)"
proof (induction fails arbitrary: resp s)
  case Nil
  then show ?case
    by (simp add: retry_setDevicePoint.simps[of _ _ _ "_ # _"] retry_setDevicePoint.simps[of _ _ "r"] emit_def)
next
  case (Cons a fails)
  show ?case
  proof (cases a)
    case Throws
    then show ?thesis using Cons
      by (simp add: retry_setDevicePoint.simps[of _ _ resp "_ # _"] emit_def sleep_def setUnavailable_def)
  next
    case (Returns x)
    then show ?thesis using Cons
      by (simp add: retry_setDevicePoint.simps[of _ _ resp "_ # _"] emit_def)
  qed
qed






lemma filter_trigger_attempts:
  "filter is_trigger (concat (map (attempt_effects d pts) fails)) = []"
proof (induction fails)
  case Nil then show ?case by simp
next
  case (Cons a fails) then show ?case by (cases a) simp_all
qed


lemma setHeaterState_result:
  assumes "\<forall>x \<in> set fails. is_failure x" and "ok r"
  shows "setHeaterState d on p (fails @ Returns (Some r) # rest) s =
     Some (rest, setHeaterState_ack on p
        (s\<lparr>available := (if Throws \<in> set fails then False else available s),
           trace := trace s @ concat (map (attempt_effects d [(Some 517, NumV (if on then p else Num 0))]) fails)
                     @ [SetDevicePoint d [(Some 517, NumV (if on then p else Num 0))]]\<rparr>))"
  using assms by (simp add: setHeaterState_def Let_def retry_fails)


subsection \<open>The leak relation\<close>

lemma leakRelation_le_100:
  assumes "0 \<le> addedEnergy"
  shows "\<not> js_gt (leakRelation leakedEnergy addedEnergy) 100"
proof (cases "addedEnergy > leakedEnergy")
  case False
  then show ?thesis by (simp add: leakRelation_def)
next
  case True
  show ?thesis
  proof (cases "addedEnergy = 0")
    case True
    with \<open>addedEnergy > leakedEnergy\<close> show ?thesis
      by (simp add: leakRelation_def js_div_def)
  next
    case False
    with assms have pos: "0 < addedEnergy" by simp
    from True pos have "100 * leakedEnergy / addedEnergy < 100"
      by (simp add: field_simps)
    with True False show ?thesis
      by (simp add: leakRelation_def js_div_def)
  qed
qed

lemma logLeakage_accum_prevRelation:
  "prevRelation (logLeakage_accum strnum t newTime s) = prevRelation s"
  by (simp add: logLeakage_accum_def Let_def emit_def split: option.splits jsnum.splits)

lemma logLeakage_accum_no_relation:
  "SetCapabilityValue ''measure_humidity.leak_relation'' v
     \<notin> set (drop (length (trace s)) (trace (logLeakage_accum strnum t newTime s)))"
  by (simp add: logLeakage_accum_def Let_def emit_def split: option.splits jsnum.splits)

lemma logLeakage_accum_trace:
  "\<exists>es. trace (logLeakage_accum strnum t newTime s) = trace s @ es"
  by (simp add: logLeakage_accum_def Let_def emit_def split: option.splits jsnum.splits)

subsection \<open>The histogram estimator\<close>

lemma qualifies_cooling: "qualifies (cooling_sample n)"
  by (simp add: qualifies_def cooling_sample_def fixed_num_def)

lemma tempDiff_cooling: "tempDiff (cooling_sample n) = Fixed True n (Suc 0)"
  by (simp add: cooling_sample_def)

lemma count_cooling:
  "count_temp_diffs (replicate n (cooling_sample t)) ([(Fixed True t (Suc 0), c)], i) =
     ([(Fixed True t (Suc 0), c + n)], i + n)"
  by (induction n arbitrary: c i) (simp_all add: qualifies_cooling tempDiff_cooling)

lemma count_cooling_from_empty:
  "count_temp_diffs (replicate (Suc n) (cooling_sample t)) ([], 0) =
     ([(Fixed True t (Suc 0), Suc n)], Suc n)"
  using count_cooling[of n t 1 1]
  by (simp add: qualifies_cooling tempDiff_cooling)

lemma select_single_cooling:
  "10 \<le> m \<Longrightarrow>
   select_keys [(Fixed True 3 (Suc 0), m)] m = (Some (Fixed True 3 (Suc 0)), None)"
  by (simp add: select_keys_def sortedKeys_def count_of_def select_neighbour_def Let_def
        toFixed_def fixed_num_def)

lemma select_single_cooling_few:
  "m < 10 \<Longrightarrow> select_keys [(Fixed True 3 (Suc 0), m)] m = (None, None)"
  by (simp add: select_keys_def sortedKeys_def count_of_def)

lemma term_cooling: "temp_drop_term (cooling_sample 3) = Quotient (- (1 / 10))"
  by (simp add: temp_drop_term_def cooling_sample_def fixed_num_def Let_def)

lemma drop_cooling:
  "temp_drop_sum (Fixed True 3 (Suc 0)) None (replicate n (cooling_sample 3)) (Quotient v) =
     Quotient (v + real n / 10)"
  by (induction n arbitrary: v) (simp_all add: tempDiff_cooling term_cooling field_simps)

lemma stationary_update:
  assumes past: "pastLeakage s = replicate n (cooling_sample 3)" and n: "9 \<le> n" "n < 200"
    and new: "prevData u t st tm prev s = cooling_sample 3"
    and k: "leakageConstant_200 s = Quotient k"
  shows "leakageConstant_200 (logLeakage_200_sample u t st tm prev s) =
           Quotient (0.99 * k + 0.01 * (4.187 * real_of_int (tankVolume s) / 10))"
    and "pastLeakage (logLeakage_200_sample u t st tm prev s) =
           replicate (Suc n) (cooling_sample 3)"
    and "tankVolume (logLeakage_200_sample u t st tm prev s) = tankVolume s"
proof -
  let ?s2 = "log_sample u t st tm prev s"
  let ?K = "Fixed True 3 (Suc 0)"
  have win: "pastLeakage ?s2 = replicate (Suc n) (cooling_sample 3)"
    using past n by (simp add: log_sample_def new push_sample_def LOGITEMS_def)
  have hist: "count_temp_diffs (pastLeakage ?s2) ([], 0) = ([(?K, Suc n)], Suc n)"
    unfolding win by (rule count_cooling_from_empty)
  have keys: "select_keys [(?K, Suc n)] (Suc n) = (Some ?K, None)"
    using n by (simp add: select_single_cooling)
  have sum: "temp_drop_sum ?K None (pastLeakage ?s2) (Quotient 0) = Quotient (real (Suc n) / 10)"
    unfolding win using drop_cooling[of "Suc n" 0] by simp
  have other: "leakageConstant_200 ?s2 = Quotient k" "tankVolume ?s2 = tankVolume s"
    by (simp_all add: log_sample_def k)
  have new_k: "new_leakageConstant [(?K, Suc n)] ?K None ?s2 =
      Quotient (4.187 * real_of_int (tankVolume s) / 10)"
    unfolding new_leakageConstant_def Let_def sum other
    by (simp add: count_of_def js_div_def field_simps)
  have upd: "js_add (js_mul (Quotient 0.99) (Quotient k))
        (js_mul (Quotient 0.01) (Quotient (4.187 * real_of_int (tankVolume s) / 10))) =
      Quotient (0.99 * k + 0.01 * (4.187 * real_of_int (tankVolume s) / 10))"
    by simp
  have step: "logLeakage_200_sample u t st tm prev s =
      logLeakage_200_tail (t - outsideTemp_200 s) tm
        (?s2\<lparr>leakageConstant_200 :=
                 Quotient (0.99 * k + 0.01 * (4.187 * real_of_int (tankVolume s) / 10))\<rparr>)"
    unfolding logLeakage_200_sample_def Let_def hist
    by (simp only: fst_conv snd_conv keys option.case new_k other upd)
  show "leakageConstant_200 (logLeakage_200_sample u t st tm prev s) =
           Quotient (0.99 * k + 0.01 * (4.187 * real_of_int (tankVolume s) / 10))"
    unfolding step by (simp add: logLeakage_200_tail_def Let_def emit_def)
  show "pastLeakage (logLeakage_200_sample u t st tm prev s) =
           replicate (Suc n) (cooling_sample 3)"
    unfolding step using win
    by (simp add: logLeakage_200_tail_def Let_def emit_def del: replicate_Suc)
  show "tankVolume (logLeakage_200_sample u t st tm prev s) = tankVolume s"
    unfolding step by (simp add: logLeakage_200_tail_def Let_def emit_def log_sample_def)
qed

lemma too_few_samples:
  assumes past: "pastLeakage s = replicate n (cooling_sample 3)" and n: "Suc n < 10"
    and new: "prevData u t st tm prev s = cooling_sample 3"
    and c: "currentLeakage s = Quotient 0"
  shows "logLeakage_200_sample u t st tm prev s =
           s\<lparr>pastLeakage := replicate (Suc n) (cooling_sample 3)\<rparr>"
proof -
  let ?s2 = "log_sample u t st tm prev s"
  let ?K = "Fixed True 3 (Suc 0)"
  have s2: "?s2 = s\<lparr>pastLeakage := replicate (Suc n) (cooling_sample 3)\<rparr>"
    using past n by (simp add: log_sample_def new push_sample_def LOGITEMS_def)
  have win: "pastLeakage ?s2 = replicate (Suc n) (cooling_sample 3)"
    unfolding s2 by simp
  have hist: "count_temp_diffs (pastLeakage ?s2) ([], 0) = ([(?K, Suc n)], Suc n)"
    unfolding win by (rule count_cooling_from_empty)
  have keys: "select_keys [(?K, Suc n)] (Suc n) = (None, None)"
    using n by (rule select_single_cooling_few)
  have cur: "currentLeakage ?s2 = Quotient 0"
    by (simp add: log_sample_def c)
  have "logLeakage_200_sample u t st tm prev s = ?s2"
    unfolding logLeakage_200_sample_def Let_def hist
    by (simp only: fst_conv snd_conv keys option.case cur simp_thms if_True)
  then show ?thesis by (simp only: s2)
qed

lemma rejected_keeps_constant:
  assumes "fst (select_keys (fst (count_temp_diffs (pastLeakage (log_sample u t st tm prev s)) ([], 0)))
                 (snd (count_temp_diffs (pastLeakage (log_sample u t st tm prev s)) ([], 0)))) = None"
  shows "leakageConstant_200 (logLeakage_200_sample u t st tm prev s) = leakageConstant_200 s"
  using assms
  by (simp add: logLeakage_200_sample_def Let_def logLeakage_200_tail_def emit_def log_sample_def)

lemma tie_prevData:
  "prevData 1000 34 10 300000 (1000, 343 / 10, 10, 0) device_tie = cooling_sample 3"
  by (simp add: prevData_def device_tie_def device200_0_def toFixed_def)
    (simp add: cooling_sample_def)

lemma tie_window:
  "pastLeakage (log_sample 1000 34 10 300000 (1000, 343 / 10, 10, 0) device_tie) =
     replicate 12 (cooling_sample 3) @ replicate 4 (cooling_sample 7)"
proof -
  have "replicate 12 (cooling_sample 3) = cooling_sample 3 # replicate 11 (cooling_sample 3)"
    by (simp add: eval_nat_numeral)
  moreover have "pastLeakage device_tie =
      replicate 11 (cooling_sample 3) @ replicate 4 (cooling_sample 7)"
    by (simp add: device_tie_def)
  ultimately show ?thesis
    by (simp add: log_sample_def tie_prevData push_sample_def LOGITEMS_def)
qed

lemma count_temp_diffs_append:
  "count_temp_diffs (xs @ ys) acc = count_temp_diffs ys (count_temp_diffs xs acc)"
  by (induction xs arbitrary: acc) (auto split: option.splits)

lemma count_cooling_other:
  "t \<noteq> t' \<Longrightarrow>
   count_temp_diffs (replicate n (cooling_sample t'))
     ([(Fixed True t (Suc 0), c), (Fixed True t' (Suc 0), c')], i) =
   ([(Fixed True t (Suc 0), c), (Fixed True t' (Suc 0), c' + n)], i + n)"
  by (induction n arbitrary: c' i) (simp_all add: qualifies_cooling tempDiff_cooling)

lemma tie_hist:
  "count_temp_diffs (replicate 12 (cooling_sample 3) @ replicate 4 (cooling_sample 7)) ([], 0) =
     ([(Fixed True 3 (Suc 0), 12), (Fixed True 7 (Suc 0), 4)], 16)"
proof -
  have a: "count_temp_diffs (replicate 12 (cooling_sample 3)) ([], 0) =
      ([(Fixed True 3 (Suc 0), 12)], 12)"
    using count_cooling_from_empty[of 11 3] by simp
  have b: "replicate 4 (cooling_sample 7) = cooling_sample 7 # replicate 3 (cooling_sample 7)"
    by (simp add: eval_nat_numeral)
  have c: "count_temp_diffs (replicate 3 (cooling_sample 7))
       ([(Fixed True 3 (Suc 0), 12), (Fixed True 7 (Suc 0), 1)], 13) =
     ([(Fixed True 3 (Suc 0), 12), (Fixed True 7 (Suc 0), 4)], 16)"
    using count_cooling_other[of 3 7 3 12 1 13] by simp
  show ?thesis
    unfolding count_temp_diffs_append a b
    using c by (simp add: qualifies_cooling tempDiff_cooling)
qed

lemma tie_keys:
  "sortedKeys [(Fixed True 3 (Suc 0), 12), (Fixed True 7 (Suc 0), 4)] =
     [Fixed True 3 (Suc 0), Fixed True 7 (Suc 0)]"
  "not_neighbours (Fixed True 3 (Suc 0)) (Fixed True 7 (Suc 0))"
  "count_of [(Fixed True 3 (Suc 0), 12), (Fixed True 7 (Suc 0), 4)] (Fixed True 3 (Suc 0)) = 12"
  "count_of [(Fixed True 3 (Suc 0), 12), (Fixed True 7 (Suc 0), 4)] (Fixed True 7 (Suc 0)) = 4"
  by (simp_all add: sortedKeys_def count_of_def not_neighbours_def parseInt_num_def fixed_num_def)

lemma drop_cooling_other:
  "t \<noteq> t' \<Longrightarrow>
   temp_drop_sum (Fixed True t (Suc 0)) None (replicate n (cooling_sample t')) v = v"
  by (induction n arbitrary: v) (simp_all add: tempDiff_cooling)

text \<open>The run of the scenario, poll by poll.\<close>

lemma cooling_run_0:
  "cooling_run 0 device200_0 =
     device200_0\<lparr>outsideTemp_200 := 30, prevPower := Some 1000, prevTemp := Some 40,
                  prevStored := Some 10, prevTime := 0\<rparr>"
  by (simp add: cooling_poll_def logLeakage_200_def device200_0_def remembered_def
        eq_undefined_def Let_def)

lemma cooling_prevData:
  assumes "outsideTemp_200 s = 40 - 0.3 * real (Suc n) - 10"
  shows "prevData 1000 (40 - 0.3 * real (Suc n)) 10 (300000 * int (Suc n))
           (1000, 40 - 0.3 * real n, 10, 300000 * int n) s = cooling_sample 3"
proof -
  have t: "40 - 0.3 * real (Suc n) - (40 - 0.3 * real n) = - (3 / 10 :: real)"
    by (simp add: field_simps)
  have o: "40 - 0.3 * real (Suc n) - outsideTemp_200 s = (10 :: real)"
    using assms by simp
  have tm: "300000 * int (Suc n) - 300000 * int n = 300000"
    by simp
  have f3: "toFixed 1 (- (3 / 10)) = Fixed True 3 1"
    by (simp add: toFixed_def)
  have f10: "toFixed 1 10 = Fixed False 100 1"
    by (simp add: toFixed_def)
  have f0: "toFixed 1 0 = Fixed False 0 1" "toFixed 2 0 = Fixed False 0 2"
    by (simp_all add: toFixed_def)
  show ?thesis
    unfolding prevData_def Let_def prod.case t o tm
    by (simp only: diff_self f3 f10 f0 cooling_sample_def)
qed

lemma cooling_poll_step:
  assumes prev: "prevPower s = Some 1000" "prevTemp s = Some (40 - 0.3 * real n)"
      "prevStored s = Some 10" "prevTime s = 300000 * int n"
  shows "cooling_poll (Suc n) s =
     logLeakage_200_sample 1000 (40 - 0.3 * real (Suc n)) 10 (300000 * int (Suc n))
       (1000, 40 - 0.3 * real n, 10, 300000 * int n)
       (s\<lparr>outsideTemp_200 := 40 - 0.3 * real (Suc n) - 10,
          prevPower := Some 1000, prevTemp := Some (40 - 0.3 * real (Suc n)),
          prevStored := Some 10, prevTime := 300000 * int (Suc n)\<rparr>)"
  unfolding cooling_poll_def logLeakage_200_def Let_def
  by (simp add: prev remembered_def eq_undefined_def del: of_nat_Suc)

lemma run_state_0: "run_state 0 (cooling_run 0 device200_0)"
  unfolding cooling_run_0
  by (simp add: run_state_def device200_0_def k_after_def)

lemma k_after_Suc:
  "9 \<le> n \<Longrightarrow> k_after (Suc n) = 0.99 * k_after n + 0.01 * (4.187 * 178 / 10)"
proof (cases "n = 9")
  case True
  then show ?thesis by (simp add: k_after_def k_implied_def)
next
  case False
  assume "9 \<le> n"
  with False have n: "10 \<le> n" by simp
  then have "Suc n - 9 = Suc (n - 9)" by simp
  with n show ?thesis
    by (simp add: k_after_def k_implied_def algebra_simps)
qed

lemma run_state_Suc:
  assumes "run_state n s" and "n < 200"
  shows "run_state (Suc n) (cooling_poll (Suc n) s)"
proof -
  let ?t = "40 - 0.3 * real (Suc n)"
  let ?prev = "(1000, 40 - 0.3 * real n, 10, 300000 * int n)"
  let ?s1 = "s\<lparr>outsideTemp_200 := ?t - 10,
          prevPower := Some 1000, prevTemp := Some ?t,
          prevStored := Some 10, prevTime := 300000 * int (Suc n)\<rparr>"
  from assms(1) have st: "prevPower s = Some 1000" "prevTemp s = Some (40 - 0.3 * real n)"
      "prevStored s = Some 10" "prevTime s = 300000 * int n"
      "pastLeakage s = replicate n (cooling_sample 3)" "tankVolume s = 178"
      "leakageConstant_200 s = Quotient (k_after n)"
    by (simp_all add: run_state_def)
  have poll: "cooling_poll (Suc n) s =
      logLeakage_200_sample 1000 ?t 10 (300000 * int (Suc n)) ?prev ?s1"
    using st(1-4) by (rule cooling_poll_step)
  have new: "prevData 1000 ?t 10 (300000 * int (Suc n)) ?prev ?s1 = cooling_sample 3"
    by (rule cooling_prevData) simp
  have past: "pastLeakage ?s1 = replicate n (cooling_sample 3)"
    using st(5) by simp
  show ?thesis
  proof (cases "Suc n < 10")
    case True
    with assms(1) have "currentLeakage s = Quotient 0" by (simp add: run_state_def)
    then have c: "currentLeakage ?s1 = Quotient 0" by simp
    have res: "cooling_poll (Suc n) s =
        ?s1\<lparr>pastLeakage := replicate (Suc n) (cooling_sample 3)\<rparr>"
      unfolding poll using past True new c by (rule too_few_samples)
    have k: "k_after (Suc n) = k_after n"
      using True by (simp add: k_after_def)
    show ?thesis
      unfolding res run_state_def
      using st c True by (simp add: k del: replicate_Suc of_nat_Suc)
  next
    case False
    then have n9: "9 \<le> n" by simp
    have k: "leakageConstant_200 ?s1 = Quotient (k_after n)"
      using st(7) by simp
    note upd = stationary_update[OF past n9 assms(2) new k]
    have prevs: "prevPower (cooling_poll (Suc n) s) = Some 1000"
      "prevTemp (cooling_poll (Suc n) s) = Some ?t"
      "prevStored (cooling_poll (Suc n) s) = Some 10"
      "prevTime (cooling_poll (Suc n) s) = 300000 * int (Suc n)"
      unfolding poll
      by (simp_all add: logLeakage_200_sample_def logLeakage_200_tail_def log_sample_def
            Let_def emit_def split: option.splits del: of_nat_Suc)
    have tv: "tankVolume ?s1 = 178" using st(6) by simp
    show ?thesis
      unfolding run_state_def
      using prevs upd False n9 tv
      by (simp add: poll k_after_Suc del: replicate_Suc of_nat_Suc)
  qed
qed

lemma run_state_cooling_run:
  "n \<le> 200 \<Longrightarrow> run_state n (cooling_run n device200_0)"
proof (induction n)
  case 0
  show ?case by (rule run_state_0)
next
  case (Suc n)
  then have "run_state n (cooling_run n device200_0)" and "n < 200" by simp_all
  then have "run_state (Suc n) (cooling_poll (Suc n) (cooling_run n device200_0))"
    by (rule run_state_Suc)
  then show ?case by simp
qed

lemma temp_drop_sum_append:
  "temp_drop_sum k0 k1 (xs @ ys) v = temp_drop_sum k0 k1 ys (temp_drop_sum k0 k1 xs v)"
  by (induction xs arbitrary: v) simp_all

lemma two_bin_hist:
  "count_temp_diffs (replicate (Suc a) (cooling_sample 3) @ replicate (Suc b) (cooling_sample 7))
     ([], 0) =
   ([(Fixed True 3 (Suc 0), Suc a), (Fixed True 7 (Suc 0), Suc b)], Suc a + Suc b)"
proof -
  have c: "count_temp_diffs (replicate b (cooling_sample 7))
       ([(Fixed True 3 (Suc 0), Suc a), (Fixed True 7 (Suc 0), 1)], Suc a + 1) =
     ([(Fixed True 3 (Suc 0), Suc a), (Fixed True 7 (Suc 0), 1 + b)], Suc a + 1 + b)"
    using count_cooling_other[of 3 7 b "Suc a" 1 "Suc a + 1"] by simp
  show ?thesis
    unfolding count_temp_diffs_append count_cooling_from_empty
    using c by (simp add: qualifies_cooling tempDiff_cooling)
qed

lemma noisy_prevData:
  "prevData 1000 34 10 300000 (1000, 343 / 10, 10, 0) device_noisy = cooling_sample 3"
  by (simp add: prevData_def device_noisy_def device200_0_def toFixed_def)
    (simp add: cooling_sample_def)

lemma noisy_window:
  "pastLeakage (log_sample 1000 34 10 300000 (1000, 343 / 10, 10, 0) device_noisy) =
     replicate 11 (cooling_sample 3) @ replicate 4 (cooling_sample 7)"
proof -
  have "replicate 11 (cooling_sample 3) = cooling_sample 3 # replicate 10 (cooling_sample 3)"
    by (simp add: eval_nat_numeral)
  moreover have "pastLeakage device_noisy =
      replicate 10 (cooling_sample 3) @ replicate 4 (cooling_sample 7)"
    by (simp add: device_noisy_def)
  ultimately show ?thesis
    by (simp add: log_sample_def noisy_prevData push_sample_def LOGITEMS_def)
qed

lemma noisy_hist:
  "count_temp_diffs
     (pastLeakage (log_sample 1000 34 10 300000 (1000, 343 / 10, 10, 0) device_noisy)) ([], 0) =
   ([(Fixed True 3 (Suc 0), 11), (Fixed True 7 (Suc 0), 4)], 15)"
  unfolding noisy_window using two_bin_hist[of 10 3] by simp

lemma tie_hist':
  "count_temp_diffs
     (pastLeakage (log_sample 1000 34 10 300000 (1000, 343 / 10, 10, 0) device_tie)) ([], 0) =
   ([(Fixed True 3 (Suc 0), 12), (Fixed True 7 (Suc 0), 4)], 16)"
  unfolding tie_window using two_bin_hist[of 11 3] by simp

lemma two_bin_keys:
  "sortedKeys [(Fixed True 3 (Suc 0), Suc (a + b)), (Fixed True 7 (Suc 0), Suc b)] =
     [Fixed True 3 (Suc 0), Fixed True 7 (Suc 0)]"
  "count_of [(Fixed True 3 (Suc 0), c), (Fixed True 7 (Suc 0), d)] (Fixed True 3 (Suc 0)) = c"
  "count_of [(Fixed True 3 (Suc 0), c), (Fixed True 7 (Suc 0), d)] (Fixed True 7 (Suc 0)) = d"
  by (simp_all add: sortedKeys_def count_of_def)

subsection \<open>Effects added by the methods\<close>







lemma new_effects_emit: "new_effects s (emit e s) = [e]"
  by (simp add: new_effects_def emit_def)
















subsection \<open>The spot-price guard\<close>


lemma map_of_set_prop: "map_of (set_prop k v obj) = (map_of obj)(k \<mapsto> v)"
  by (induction obj) auto

lemma get_prop_set_prop:
  "get_prop (set_prop k v obj) k' = (if k' = k then v else get_prop obj k')"
  by (simp add: get_prop_def map_of_set_prop)




















lemma controling_device_kept:
  assumes "String_js numstr (get_prop newSettings ''controling_device'') \<noteq> ''6''"
  shows "get_prop (toSetSettings numstr unit s newSettings) ''controling_device'' =
           StrV (String_js numstr (get_prop newSettings ''controling_device''))"
  using assms by (simp add: toSetSettings_def Let_def get_prop_set_prop)

subsection \<open>The accumulation of \<open>device.js\<close>\<close>

lemma logLeakage_200_tail_constant:
  "leakageConstant_200 (logLeakage_200_tail out tm s) = leakageConstant_200 s"
  by (simp add: logLeakage_200_tail_def Let_def emit_def)

lemma logLeakage_200_tail_grows:
  assumes "leakageConstant_200 s = Quotient k" and "0 \<le> k" and "0 \<le> out"
    and "prevAccumTime s \<le> tm" and "accumulatedLeakage_200 s = Quotient acc"
  shows "\<exists>acc'. accumulatedLeakage_200 (logLeakage_200_tail out tm s) = Quotient acc'
           \<and> acc \<le> acc'"
proof -
  have "0 \<le> k * out * real_of_int (tm - prevAccumTime s)"
    using assms(2-4) by simp
  then have "0 \<le> k * out * real_of_int (tm - prevAccumTime s) / 3600000000"
    by simp
  then show ?thesis
    using assms(1,5)
    by (simp add: logLeakage_200_tail_def Let_def emit_def js_div_def)
qed

lemma logLeakage_200_sample_grows:
  assumes "leakageConstant_200 (logLeakage_200_sample u t st tm prev s) = Quotient k"
    and "0 \<le> k" and "outsideTemp_200 s \<le> t"
    and "prevAccumTime s \<le> tm" and "accumulatedLeakage_200 s = Quotient acc"
  shows "\<exists>acc'. accumulatedLeakage_200 (logLeakage_200_sample u t st tm prev s) = Quotient acc'
           \<and> acc \<le> acc'"
proof -
  let ?s2 = "log_sample u t st tm prev s"
  let ?hist = "count_temp_diffs (pastLeakage ?s2) ([], 0)"
  let ?keys = "select_keys (fst ?hist) (snd ?hist)"
  have s2: "accumulatedLeakage_200 ?s2 = Quotient acc" "prevAccumTime ?s2 \<le> tm"
    using assms(4,5) by (simp_all add: log_sample_def)
  have out: "0 \<le> t - outsideTemp_200 s" using assms(3) by simp
  show ?thesis
  proof (cases "fst ?keys")
    case None
    show ?thesis
    proof (cases "currentLeakage ?s2 = NaNQuotient \<or> currentLeakage ?s2 = Quotient 0")
      case True
      with None have "logLeakage_200_sample u t st tm prev s = ?s2"
        by (simp add: logLeakage_200_sample_def Let_def)
      with s2 show ?thesis by simp
    next
      case False
      with None have res: "logLeakage_200_sample u t st tm prev s =
          logLeakage_200_tail (t - outsideTemp_200 s) tm ?s2"
        by (simp add: logLeakage_200_sample_def Let_def)
      have "leakageConstant_200 ?s2 = Quotient k"
        using assms(1) unfolding res by (simp add: logLeakage_200_tail_constant)
      from logLeakage_200_tail_grows[OF this assms(2) out s2(2) s2(1)]
      show ?thesis unfolding res .
    qed
  next
    case (Some key0)
    let ?s3 = "?s2\<lparr>leakageConstant_200 :=
                      js_add (js_mul (Quotient 0.99) (leakageConstant_200 ?s2))
                        (js_mul (Quotient 0.01)
                           (new_leakageConstant (fst ?hist) key0 (snd ?keys) ?s2))\<rparr>"
    from Some have res: "logLeakage_200_sample u t st tm prev s =
        logLeakage_200_tail (t - outsideTemp_200 s) tm ?s3"
      by (simp add: logLeakage_200_sample_def Let_def)
    have k: "leakageConstant_200 ?s3 = Quotient k"
      using assms(1) unfolding res by (simp only: logLeakage_200_tail_constant)
    have s3: "prevAccumTime ?s3 \<le> tm" "accumulatedLeakage_200 ?s3 = Quotient acc"
      using s2 by simp_all
    from logLeakage_200_tail_grows[OF k assms(2) out s3]
    show ?thesis unfolding res .
  qed
qed

text \<open>The call that logs the tenth sample of a tank at the ambient temperature.\<close>

lemma js_add_NaN: "js_add a NaNQuotient = NaNQuotient"
  by (cases a) simp_all

lemma js_mul_NaN: "js_mul a NaNQuotient = NaNQuotient"
  by (cases a) simp_all

lemma idle_term: "temp_drop_term idle_sample = NaNQuotient"
  by (simp add: temp_drop_term_def idle_sample_def fixed_num_def Let_def)

lemma idle_qualifies: "qualifies idle_sample" "tempDiff idle_sample = Fixed False 0 (Suc 0)"
  by (simp_all add: qualifies_def idle_sample_def fixed_num_def)

lemma idle_count:
  "count_temp_diffs (replicate n idle_sample) ([(Fixed False 0 (Suc 0), c)], i) =
     ([(Fixed False 0 (Suc 0), c + n)], i + n)"
  by (induction n arbitrary: c i) (simp_all add: idle_qualifies)

lemma idle_sum:
  "temp_drop_sum (Fixed False 0 (Suc 0)) None (replicate n idle_sample) NaNQuotient = NaNQuotient"
  by (induction n) (simp_all add: idle_qualifies idle_term)

lemma idle_values:
  "leakageConstant_200 idle_result = NaNQuotient"
  "accumulatedLeakage_200 idle_result = NaNQuotient"
proof -
  let ?prev = "(1000, 24, 10, 0) :: real \<times> real \<times> real \<times> int"
  let ?s1 = "device_idle\<lparr>prevPower := Some 1000, prevTemp := Some 24, prevStored := Some 10,
                         prevTime := 300000\<rparr>"
  let ?s2 = "log_sample 1000 24 10 300000 ?prev ?s1"
  let ?K = "Fixed False 0 (Suc 0)"
  have res: "idle_result = logLeakage_200_sample 1000 24 10 300000 ?prev ?s1"
    by (simp add: idle_result_def logLeakage_200_def device_idle_def remembered_def
          eq_undefined_def Let_def)
  have new: "prevData 1000 24 10 300000 ?prev ?s1 = idle_sample"
    by (simp add: prevData_def device_idle_def device200_0_def toFixed_def idle_sample_def)
  have win: "pastLeakage ?s2 = replicate 10 idle_sample"
  proof -
    have "replicate 10 idle_sample = idle_sample # replicate 9 idle_sample"
      by (simp add: eval_nat_numeral)
    moreover have "pastLeakage ?s1 = replicate 9 idle_sample"
      by (simp add: device_idle_def)
    ultimately show ?thesis
      by (simp add: log_sample_def new push_sample_def LOGITEMS_def)
  qed
  have hist: "count_temp_diffs (pastLeakage ?s2) ([], 0) = ([(?K, 10)], 10)"
  proof -
    have "replicate 10 idle_sample = idle_sample # replicate 9 idle_sample"
      by (simp add: eval_nat_numeral)
    then show ?thesis
      unfolding win using idle_count[of 9 1 1] by (simp add: idle_qualifies)
  qed
  have keys: "select_keys [(?K, 10)] 10 = (Some ?K, None)"
    by (simp add: select_keys_def sortedKeys_def count_of_def select_neighbour_def Let_def
          toFixed_def fixed_num_def)
  have sum: "temp_drop_sum ?K None (pastLeakage ?s2) (Quotient 0) = NaNQuotient"
  proof -
    have "replicate 10 idle_sample = idle_sample # replicate 9 idle_sample"
      by (simp add: eval_nat_numeral)
    then show ?thesis
      unfolding win by (simp add: idle_qualifies idle_term idle_sum)
  qed
  have new_k: "new_leakageConstant [(?K, 10)] ?K None ?s2 = NaNQuotient"
    unfolding new_leakageConstant_def Let_def sum by simp
  have upd: "js_add (js_mul (Quotient 0.99) (leakageConstant_200 ?s2))
        (js_mul (Quotient 0.01) NaNQuotient) = NaNQuotient"
    by (simp add: js_add_NaN)
  have step: "logLeakage_200_sample 1000 24 10 300000 ?prev ?s1 =
      logLeakage_200_tail (24 - outsideTemp_200 ?s1) 300000
        (?s2\<lparr>leakageConstant_200 := NaNQuotient\<rparr>)"
    unfolding logLeakage_200_sample_def Let_def hist
    by (simp only: fst_conv snd_conv keys option.case new_k upd)
  show "leakageConstant_200 idle_result = NaNQuotient"
    unfolding res step by (simp add: logLeakage_200_tail_def Let_def emit_def)
  show "accumulatedLeakage_200 idle_result = NaNQuotient"
    unfolding res step
    by (simp add: logLeakage_200_tail_def Let_def emit_def js_add_NaN)
qed

lemma log_sample_prev_fields:
  "pastLeakage (log_sample u t st tm prev
      (s\<lparr>prevPower := a, prevTemp := b, prevStored := c, prevTime := d\<rparr>)) =
   pastLeakage (log_sample u t st tm prev s)"
  by (simp add: log_sample_def prevData_def)

text \<open>The call that logs the twelfth sample of 0.3 degrees.\<close>

lemma tie_result_values:
  "leakageConstant_200 tie_result = Quotient 13.314326"
  "pastLeakage tie_result = replicate 12 (cooling_sample 3) @ replicate 4 (cooling_sample 7)"
  "accumulatedLeakage_200 tie_result = Quotient (13.314326 * 10 * 300000 / 3600000000)"
proof -
  let ?prev = "(1000, 343 / 10, 10, 0) :: real \<times> real \<times> real \<times> int"
  let ?s1 = "device_tie\<lparr>prevPower := Some 1000, prevTemp := Some 34, prevStored := Some 10,
                         prevTime := 300000\<rparr>"
  let ?s2 = "log_sample 1000 34 10 300000 ?prev ?s1"
  let ?td = "[(Fixed True 3 (Suc 0), 12), (Fixed True 7 (Suc 0), 4)]"
  have res: "tie_result = logLeakage_200_sample 1000 34 10 300000 ?prev ?s1"
    by (simp add: tie_result_def logLeakage_200_def device_tie_def remembered_def
          eq_undefined_def Let_def)
  have win: "pastLeakage ?s2 =
      replicate 12 (cooling_sample 3) @ replicate 4 (cooling_sample 7)"
    unfolding log_sample_prev_fields by (rule tie_window)
  have hist: "count_temp_diffs (pastLeakage ?s2) ([], 0) = (?td, 16)"
    unfolding win by (rule tie_hist)
  have keys: "select_keys ?td 16 = (Some (Fixed True 3 (Suc 0)), None)"
    by (simp add: select_keys_def tie_keys)
  have sum: "temp_drop_sum (Fixed True 3 (Suc 0)) None (pastLeakage ?s2) (Quotient 0) =
      Quotient (12 / 10)"
    unfolding win temp_drop_sum_append
    using drop_cooling[of 12 0] by (simp add: drop_cooling_other)
  have other: "leakageConstant_200 ?s2 = Quotient 12.696" "tankVolume ?s2 = 178"
    by (simp_all add: log_sample_def device_tie_def device200_0_def)
  have new_k: "new_leakageConstant ?td (Fixed True 3 (Suc 0)) None ?s2 =
      Quotient (4.187 * 178 / 10)"
    unfolding new_leakageConstant_def Let_def sum other
    by (simp add: tie_keys js_div_def)
  have upd: "js_add (js_mul (Quotient 0.99) (Quotient 12.696))
        (js_mul (Quotient 0.01) (Quotient (4.187 * 178 / 10))) = Quotient 13.314326"
    by simp
  have step: "logLeakage_200_sample 1000 34 10 300000 ?prev ?s1 =
      logLeakage_200_tail (34 - outsideTemp_200 ?s1) 300000
        (?s2\<lparr>leakageConstant_200 := Quotient 13.314326\<rparr>)"
    unfolding logLeakage_200_sample_def Let_def hist
    by (simp only: fst_conv snd_conv keys option.case new_k other upd)
  show "leakageConstant_200 tie_result = Quotient 13.314326"
    unfolding res step by (simp add: logLeakage_200_tail_def Let_def emit_def)
  show "pastLeakage tie_result =
      replicate 12 (cooling_sample 3) @ replicate 4 (cooling_sample 7)"
    unfolding res step using win
    by (simp add: logLeakage_200_tail_def Let_def emit_def)
  have acc: "accumulatedLeakage_200 ?s2 = Quotient 0" "prevAccumTime ?s2 = 0"
      "outsideTemp_200 ?s1 = 24"
    by (simp_all add: log_sample_def device_tie_def device200_0_def)
  show "accumulatedLeakage_200 tie_result = Quotient (13.314326 * 10 * 300000 / 3600000000)"
    unfolding res step
    by (simp add: logLeakage_200_tail_def Let_def emit_def acc js_div_def)
qed

section \<open>The claims\<close>




text \<open>
  Claim C3, as the code has it. The leak relation \<open>logLeakage\<close> publishes is
  \<open>100 * leakedEnergy / addedEnergy\<close> when the added energy exceeds the leaked energy and
  100 otherwise, and it never exceeds 100 when the added energy of the period is not
  negative, that is when the total usage has not fallen since the relation was last
  taken.
\<close>

theorem leak_relation_at_most_100:
  assumes "ToNumber strnum totalUsage = Num usage"
    and "ToNumber strnum temperature = Num degrees"
    and "ToNumber strnum inTank = Num stored"
    and "prevRelation s = Some (prevRelationTime, prevRelationUse, prevRelationLeak)"
    and "prevRelationUse \<le> usage"
    and "SetCapabilityValue ''measure_humidity.leak_relation'' v
           \<in> set (new_effects s
                    (snd (logLeakage strnum totalUsage temperature inTank newTime s)))"
  shows "\<exists>q. v = CQuot q
           \<and> q = leakRelation
                   (accumulatedLeakage (logLeakage_accum strnum degrees newTime s)
                      - prevRelationLeak)
                   (usage - prevRelationUse)
           \<and> \<not> js_gt q 100"
proof -
  let ?a = "logLeakage_accum strnum degrees newTime s"
  obtain es where es: "trace ?a = trace s @ es"
    using logLeakage_accum_trace by blast
  have no: "SetCapabilityValue ''measure_humidity.leak_relation'' v \<notin> set es"
    using logLeakage_accum_no_relation[of v s strnum degrees newTime] es by simp
  have added: "0 \<le> usage - prevRelationUse" using assms(5) by simp
  have pr: "prevRelation ?a = Some (prevRelationTime, prevRelationUse, prevRelationLeak)"
    using assms(4) by (simp add: logLeakage_accum_prevRelation)
  from assms(6) no es pr
  have "v = CQuot (leakRelation (accumulatedLeakage ?a - prevRelationLeak)
                     (usage - prevRelationUse))"
    by (auto simp: logLeakage_def logLeakage_relation_def new_effects_def Let_def emit_def
          assms(1-3) split: if_splits)
  then show ?thesis using leakRelation_le_100[OF added] by simp
qed

theorem leak_relation_at_most_100_witness:
  "ToNumber (\<lambda>str. NaN) (NumV (Num 20)) = Num 20
   \<and> ToNumber (\<lambda>str. NaN) (NumV (Num 74)) = Num 74
   \<and> ToNumber (\<lambda>str. NaN) (NumV (Num 5)) = Num 5
   \<and> prevRelation device_day = Some (0, 10, 0) \<and> (10::real) \<le> 20
   \<and> new_effects device_day
        (snd (logLeakage (\<lambda>str. NaN) (NumV (Num 20)) (NumV (Num 74)) (NumV (Num 5)) 90000000
                device_day)) =
       [SetCapabilityValue ''measure_power.leak'' (CNum (Num 79)),
        SetCapabilityValue ''meter_power.leak_accum'' (CNum (Num (1975 / 1000))),
        SetCapabilityValue ''measure_humidity.leak_relation'' (CQuot (Quotient (1975 / 100)))]
   \<and> \<not> js_gt (Quotient (1975 / 100)) 100"
  using leak_relation_at_most_100
          [where s = device_day and prevRelationTime = 0 and prevRelationUse = 10
             and prevRelationLeak = 0 and totalUsage = "NumV (Num 20)" and usage = 20
             and v = "CQuot (Quotient (1975 / 100))" and temperature = "NumV (Num 74)"
             and degrees = 74 and inTank = "NumV (Num 5)" and stored = 5
             and newTime = 90000000 and strnum = "\<lambda>str. NaN"]
  by (simp add: device_day_def device0_def logLeakage_def logLeakage_accum_def
        logLeakage_relation_def leakRelation_def js_div_def new_effects_def Let_def emit_def)

text \<open>
  Claim C3 as stated fails for energies of any sign: with -2 leaked and -1 added the guard
  \<open>addedEnergy > leakedEnergy\<close> holds and the relation is 200. So a day after the
  relation was taken at use 10, with the tank at 4 degrees for 100 hours and the total
  usage read as 9, \<open>logLeakage\<close> publishes the relation 316.
\<close>

theorem leak_relation_negative_energies_counterexample:
  "leakRelation (- 2) (- 1) = Quotient 200 \<and> js_gt (leakRelation (- 2) (- 1)) 100
   \<and> new_effects device_day
        (snd (logLeakage (\<lambda>str. NaN) (NumV (Num 9)) (NumV (Num 4)) (NumV (Num 5)) 360000000
                device_day)) =
       [SetCapabilityValue ''measure_power.leak'' (CNum (Num (- (316 / 10)))),
        SetCapabilityValue ''meter_power.leak_accum'' (CNum (Num (- (316 / 100)))),
        SetCapabilityValue ''measure_humidity.leak_relation'' (CQuot (Quotient 316))]"
  by (simp add: leakRelation_def js_div_def device_day_def device0_def logLeakage_def
        logLeakage_accum_def logLeakage_relation_def new_effects_def Let_def emit_def)

text \<open>
  Claim C4, as the code has it. A call of \<open>logLeakage\<close> with inputs that coerce to
  numbers, at a time that is not before the time of the last accumulation, does not
  lower the accumulated leakage: in \<open>part_000\<close> when the leakage constant is not
  negative and the ambient temperature the device holds coerces to a number that is not
  above the tank temperature; in \<open>device.js\<close>, for the whole call with its update
  of the constant, when the tank is not colder than the ambient temperature, the
  accumulated leakage is a finite number, and the constant the call leaves, which is
  the one it accumulates with, is a finite number that is not negative. (The update
  of \<open>device.js\<close> makes the constant infinite or NaN when a summed sample was logged
  with the tank at the ambient temperature or with no time passed.)
\<close>

theorem accumulatedLeakage_grows_for_warm_tank:
  assumes "ToNumber strnum totalUsage = Num u" and "ToNumber strnum temperature = Num t"
    and "ToNumber strnum inTank = Num i" and "prevAccumTime s \<le> newTime"
  shows "(0 \<le> leakageConstant s \<and> ToNumber strnum (outsideTemp s) = Num ambient
            \<and> ambient \<le> t \<longrightarrow>
          accumulatedLeakage s
            \<le> accumulatedLeakage (snd (logLeakage strnum totalUsage temperature inTank newTime s)))
       \<and> (outsideTemp_200 s \<le> t \<and> accumulatedLeakage_200 s = Quotient acc
            \<and> leakageConstant_200
                 (snd (logLeakage_200 strnum totalUsage temperature inTank newTime s)) =
               Quotient k
            \<and> 0 \<le> k \<longrightarrow>
          (\<exists>acc'. accumulatedLeakage_200
                     (snd (logLeakage_200 strnum totalUsage temperature inTank newTime s)) =
                   Quotient acc'
                 \<and> acc \<le> acc'))"
proof (intro conjI impI)
  assume h: "0 \<le> leakageConstant s \<and> ToNumber strnum (outsideTemp s) = Num ambient
               \<and> ambient \<le> t"
  then have "0 \<le> leakageConstant s * (t - ambient) * real_of_int (newTime - prevAccumTime s)"
    using assms(4) by simp
  then show "accumulatedLeakage s
      \<le> accumulatedLeakage (snd (logLeakage strnum totalUsage temperature inTank newTime s))"
    using h assms(1-3)
    by (simp add: logLeakage_def logLeakage_accum_def logLeakage_relation_def
          Let_def emit_def split: option.splits prod.splits)
next
  let ?r = "snd (logLeakage_200 strnum totalUsage temperature inTank newTime s)"
  let ?s1 = "s\<lparr>prevPower := remembered totalUsage u, prevTemp := remembered temperature t,
                prevStored := remembered inTank i, prevTime := newTime\<rparr>"
  assume h: "outsideTemp_200 s \<le> t \<and> accumulatedLeakage_200 s = Quotient acc
               \<and> leakageConstant_200 ?r = Quotient k \<and> 0 \<le> k"
  show "\<exists>acc'. accumulatedLeakage_200 ?r = Quotient acc' \<and> acc \<le> acc'"
  proof (cases "\<exists>pp pt ps. prevPower s = Some pp \<and> prevTemp s = Some pt \<and> prevStored s = Some ps")
    case False
    then have "?r = ?s1"
      using assms(1-3)
      by (auto simp: logLeakage_200_def Let_def split: option.splits)
    with h show ?thesis by simp
  next
    case True
    then obtain pp pt ps where prev:
      "prevPower s = Some pp" "prevTemp s = Some pt" "prevStored s = Some ps"
      by blast
    have res: "?r = logLeakage_200_sample u t i newTime (pp, pt, ps, prevTime s) ?s1"
      using assms(1-3) prev by (simp add: logLeakage_200_def Let_def)
    have s1: "outsideTemp_200 ?s1 \<le> t" "prevAccumTime ?s1 \<le> newTime"
        "accumulatedLeakage_200 ?s1 = Quotient acc"
      using h assms(4) by simp_all
    have k: "leakageConstant_200
               (logLeakage_200_sample u t i newTime (pp, pt, ps, prevTime s) ?s1) = Quotient k"
        "0 \<le> k"
      using h unfolding res by simp_all
    from logLeakage_200_sample_grows[OF k s1]
    show ?thesis unfolding res .
  qed
qed

theorem accumulatedLeakage_grows_for_warm_tank_witness:
  "ToNumber (\<lambda>str. NaN) (NumV (Num 20)) = Num 20
   \<and> ToNumber (\<lambda>str. NaN) (NumV (Num 74)) = Num 74
   \<and> ToNumber (\<lambda>str. NaN) (NumV (Num 5)) = Num 5
   \<and> prevAccumTime device0 \<le> 3600000
   \<and> 0 \<le> leakageConstant device0
   \<and> ToNumber (\<lambda>str. NaN) (outsideTemp device0) = Num 24 \<and> (24::real) \<le> 74
   \<and> accumulatedLeakage device0 = 0
   \<and> accumulatedLeakage
        (snd (logLeakage (\<lambda>str. NaN) (NumV (Num 20)) (NumV (Num 74)) (NumV (Num 5)) 3600000
                device0)) = 79 / 1000
   \<and> ToNumber (\<lambda>str. NaN) (NumV (Num 1000)) = Num 1000
   \<and> ToNumber (\<lambda>str. NaN) (NumV (Num 34)) = Num 34
   \<and> ToNumber (\<lambda>str. NaN) (NumV (Num 10)) = Num 10
   \<and> prevAccumTime device_tie \<le> 300000
   \<and> outsideTemp_200 device_tie \<le> 34
   \<and> accumulatedLeakage_200 device_tie = Quotient 0
   \<and> leakageConstant_200 tie_result = Quotient 13.314326
   \<and> (0::real) \<le> 13.314326
   \<and> accumulatedLeakage_200 tie_result = Quotient (13.314326 * 10 * 300000 / 3600000000)
   \<and> (0::real) \<le> 13.314326 * 10 * 300000 / 3600000000"
  using accumulatedLeakage_grows_for_warm_tank
          [where strnum = "\<lambda>str. NaN" and totalUsage = "NumV (Num 20)" and u = 20
             and temperature = "NumV (Num 74)" and t = 74 and inTank = "NumV (Num 5)"
             and i = 5 and s = device0 and newTime = 3600000 and ambient = 24]
        accumulatedLeakage_grows_for_warm_tank
          [where strnum = "\<lambda>str. NaN" and totalUsage = "NumV (Num 1000)" and u = 1000
             and temperature = "NumV (Num 34)" and t = 34 and inTank = "NumV (Num 10)"
             and i = 10 and s = device_tie and newTime = 300000 and acc = 0
             and k = "13.314326"]
        tie_result_values(1,3)
  by (simp add: device0_def logLeakage_def logLeakage_accum_def logLeakage_relation_def
        Let_def emit_def device_tie_def device200_0_def)

text \<open>
  Claim C4 as stated fails: in \<open>part_000\<close> an hour with the tank at 20 degrees, below
  the ambient 24, takes the accumulated leakage from 0 to a negative value. In
  \<open>device.js\<close> the tenth sample of a tank that stays at the ambient temperature makes
  the gate accept the bin \<open>"0.0"\<close>; every summed term is 0 / 0, the constant becomes
  NaN and with it the accumulated leakage, which was 0.
\<close>

theorem accumulatedLeakage_falls_for_cold_tank_counterexample:
  "accumulatedLeakage device0 = 0
   \<and> fst (logLeakage (\<lambda>str. NaN) (NumV (Num 20)) (NumV (Num 20)) (NumV (Num 5)) 3600000
            device0) = Inr ()
   \<and> accumulatedLeakage
        (snd (logLeakage (\<lambda>str. NaN) (NumV (Num 20)) (NumV (Num 20)) (NumV (Num 5)) 3600000
                device0)) = - (632 / 100000)
   \<and> accumulatedLeakage
        (snd (logLeakage (\<lambda>str. NaN) (NumV (Num 20)) (NumV (Num 20)) (NumV (Num 5)) 3600000
                device0))
        < accumulatedLeakage device0
   \<and> accumulatedLeakage_200 device_idle = Quotient 0
   \<and> leakageConstant_200 device_idle = Quotient 12.696
   \<and> fst (logLeakage_200 (\<lambda>str. NaN) (NumV (Num 1000)) (NumV (Num 24)) (NumV (Num 10))
            300000 device_idle) = Inr ()
   \<and> temp_drop_term idle_sample = NaNQuotient
   \<and> leakageConstant_200 idle_result = NaNQuotient
   \<and> accumulatedLeakage_200 idle_result = NaNQuotient"
  using idle_values idle_term
  by (simp add: device0_def logLeakage_def logLeakage_accum_def logLeakage_relation_def
        Let_def emit_def device_idle_def device200_0_def logLeakage_200_def)

text \<open>
  Claim C5, as the code has it. A call of \<open>logLeakage\<close> in which the numeric coercion
  of the total usage, the temperature or the stored energy is NaN (the value is
  \<open>undefined\<close>, NaN, or a string that is no numeric literal) throws, and leaves the
  whole device as it was: the leakage constant, the accumulated leakage, the baselines
  of the previous sample and the trace, so that no capability is published. Both
  versions of the driver.
\<close>

theorem logLeakage_rejects_invalid_input:
  assumes "isNaN (ToNumber strnum totalUsage) \<or> isNaN (ToNumber strnum temperature)
             \<or> isNaN (ToNumber strnum inTank)"
  shows "logLeakage strnum totalUsage temperature inTank newTime s = (Inl InvalidValues, s)
       \<and> logLeakage_200 strnum totalUsage temperature inTank newTime s =
           (Inl InvalidValues, s)"
  using assms by (simp add: logLeakage_def logLeakage_200_def)

theorem logLeakage_rejects_invalid_input_witness:
  "(isNaN (ToNumber (\<lambda>str. NaN) (NumV (Num 5))) \<or> isNaN (ToNumber (\<lambda>str. NaN) UndefinedV)
      \<or> isNaN (ToNumber (\<lambda>str. NaN) (NumV (Num 1))))
   \<and> logLeakage (\<lambda>str. NaN) (NumV (Num 5)) UndefinedV (NumV (Num 1)) 1000 device0 =
       (Inl InvalidValues, device0)
   \<and> logLeakage_200 (\<lambda>str. NaN) (NumV (Num 5)) UndefinedV (NumV (Num 1)) 1000 device0 =
       (Inl InvalidValues, device0)
   \<and> (isNaN (ToNumber (\<lambda>str. NaN) (NumV NaN)) \<or> isNaN (ToNumber (\<lambda>str. NaN) (NumV (Num 74)))
      \<or> isNaN (ToNumber (\<lambda>str. NaN) (StrV ''warm'')))
   \<and> logLeakage (\<lambda>str. NaN) (NumV NaN) (NumV (Num 74)) (StrV ''warm'') 1000 device0 =
       (Inl InvalidValues, device0)
   \<and> logLeakage_200 (\<lambda>str. NaN) (NumV NaN) (NumV (Num 74)) (StrV ''warm'') 1000 device0 =
       (Inl InvalidValues, device0)"
  using logLeakage_rejects_invalid_input
          [where strnum = "\<lambda>str. NaN" and totalUsage = "NumV (Num 5)"
             and temperature = UndefinedV and inTank = "NumV (Num 1)" and newTime = 1000
             and s = device0]
        logLeakage_rejects_invalid_input
          [where strnum = "\<lambda>str. NaN" and totalUsage = "NumV NaN"
             and temperature = "NumV (Num 74)" and inTank = "StrV ''warm''" and newTime = 1000
             and s = device0]
  by simp

text \<open>
  Claim C5 as stated fails: \<open>null\<close> is not a number, but its coercion is 0, so a call
  with \<open>null\<close> for the total usage passes the guard of \<open>part_000\<close>; after an hour at
  74 degrees it raises the accumulated leakage, publishes both leak capabilities and
  takes the baseline of the leak relation at use 0. In \<open>device.js\<close> a call with
  \<open>true\<close> for the temperature passes the guard and sets the baselines of the previous
  sample, the temperature to 1.
\<close>

theorem logLeakage_accepts_null_counterexample:
  "fst (logLeakage (\<lambda>str. NaN) NullV (NumV (Num 74)) (NumV (Num 5)) 3600000 device0) = Inr ()
   \<and> accumulatedLeakage device0 = 0
   \<and> accumulatedLeakage
        (snd (logLeakage (\<lambda>str. NaN) NullV (NumV (Num 74)) (NumV (Num 5)) 3600000 device0)) =
      79 / 1000
   \<and> new_effects device0
        (snd (logLeakage (\<lambda>str. NaN) NullV (NumV (Num 74)) (NumV (Num 5)) 3600000 device0)) =
      [SetCapabilityValue ''measure_power.leak'' (CNum (Num 79)),
       SetCapabilityValue ''meter_power.leak_accum'' (CNum (Num (79 / 1000)))]
   \<and> prevRelation device0 = None
   \<and> prevRelation
        (snd (logLeakage (\<lambda>str. NaN) NullV (NumV (Num 74)) (NumV (Num 5)) 3600000 device0)) =
      Some (3600000, 0, 79 / 1000)
   \<and> logLeakage_200 (\<lambda>str. NaN) (NumV (Num 1000)) (BoolV True) (NumV (Num 10)) 0 device200_0 =
      (Inr (), device200_0\<lparr>prevPower := Some 1000, prevTemp := Some 1, prevStored := Some 10,
                            prevTime := 0\<rparr>)
   \<and> prevTemp device200_0 = None"
  by (simp add: device0_def device200_0_def logLeakage_def logLeakage_accum_def
        logLeakage_relation_def logLeakage_200_def remembered_def eq_undefined_def
        new_effects_def Let_def emit_def)

text \<open>
  Claim C6, as the code has it. An acknowledged \<open>setHeaterState\<close> fires the
  max-power-changed trigger if and only if the new level differs from the level the
  device holds, which is compared as a level, and then holds the new level. Two calls
  in a row with the same level fire the trigger once when that level differs from the
  level held before the first call, and not at all when it is that level: the second
  call never fires.
\<close>

theorem max_power_event_is_edge_triggered:
  assumes "\<forall>x \<in> set fails1. is_failure x" and "ok r1"
    and "\<forall>x \<in> set fails2. is_failure x" and "ok r2"
  shows "(\<exists>s1. setHeaterState d on1 p (fails1 @ Returns (Some r1) # rest) s = Some (rest, s1)
            \<and> triggers s s1 =
                (if strict_eq p (max_power s) then []
                 else [TriggerMaxPowerChanged (newPowerWatt s p)])
            \<and> max_power s1 = p)
       \<and> (\<exists>s2. setHeaterState_twice d on1 on2 (Num l)
                   (fails1 @ Returns (Some r1) # fails2 @ Returns (Some r2) # rest) s =
                 Some (rest, s2)
            \<and> triggers s s2 =
                (if max_power s = Num l then []
                 else [TriggerMaxPowerChanged (newPowerWatt s (Num l))]))"
proof (rule conjI)
  show "\<exists>s1. setHeaterState d on1 p (fails1 @ Returns (Some r1) # rest) s = Some (rest, s1)
            \<and> triggers s s1 =
                (if strict_eq p (max_power s) then []
                 else [TriggerMaxPowerChanged (newPowerWatt s p)])
            \<and> max_power s1 = p"
    using assms(1,2)
    by (simp add: setHeaterState_result triggers_def new_effects_def setHeaterState_ack_def
          Let_def emit_def setAvailable_def filter_trigger_attempts newPowerWatt_def)
next
  have eq: "strict_eq (Num l) (max_power s) = (max_power s = Num l)"
    by (cases "max_power s") auto
  show "\<exists>s2. setHeaterState_twice d on1 on2 (Num l)
                   (fails1 @ Returns (Some r1) # fails2 @ Returns (Some r2) # rest) s =
                 Some (rest, s2)
            \<and> triggers s s2 =
                (if max_power s = Num l then []
                 else [TriggerMaxPowerChanged (newPowerWatt s (Num l))])"
    using assms
    by (simp add: setHeaterState_twice_def setHeaterState_result triggers_def new_effects_def
          setHeaterState_ack_def Let_def emit_def setAvailable_def filter_trigger_attempts
          newPowerWatt_def eq)
qed

theorem max_power_event_is_edge_triggered_witness:
  "list_all is_failure [Throws] \<and> ok \<lparr>ok = True\<rparr> \<and> list_all is_failure []
   \<and> (\<exists>s1. setHeaterState ''d'' True (Num 1) [Throws, Returns (Some \<lparr>ok = True\<rparr>)] device0 =
               Some ([], s1)
            \<and> triggers device0 s1 = [TriggerMaxPowerChanged 700]
            \<and> max_power s1 = Num 1)
   \<and> (\<exists>s2. setHeaterState_twice ''d'' True True (Num 1)
               [Throws, Returns (Some \<lparr>ok = True\<rparr>), Returns (Some \<lparr>ok = True\<rparr>)] device0 =
               Some ([], s2)
            \<and> triggers device0 s2 = [TriggerMaxPowerChanged 700])"
  using max_power_event_is_edge_triggered
          [of "[Throws]" "\<lparr>ok = True\<rparr>" "[]" "\<lparr>ok = True\<rparr>" "''d''" True "Num 1" "[]" device0 True 1]
  by (simp add: device0_def newPowerWatt_def)

text \<open>
  Claim C6 as stated fails: the device holds level 3 after \<open>onOAuth2Init\<close>, and two
  calls with level 3 fire no trigger.
\<close>

theorem same_level_twice_no_event_counterexample:
  "max_power device0 = Num 3
   \<and> map_option (triggers device0 \<circ> snd)
        (setHeaterState_twice ''d'' True True (Num 3)
           [Returns (Some \<lparr>ok = True\<rparr>), Returns (Some \<lparr>ok = True\<rparr>)] device0) = Some []"
  by (simp add: setHeaterState_twice_def setHeaterState_def retry_setDevicePoint.simps
        setHeaterState_ack_def Let_def triggers_def new_effects_def emit_def setAvailable_def
        device0_def newPowerText_def newPowerWatt_def)

text \<open>
  Claim C10, as the code has it. \<open>setAmbientTemp\<close> with a value whose numeric coercion
  is NaN, or that is identical (\<open>===\<close>: same type, same value) to the ambient
  temperature the device holds, returns at once: no call of the cloud client is used up
  and the device is as it was, with its ambient temperature, its availability and its
  trace (so no settings are stored and nothing is written).
\<close>

theorem setAmbientTemp_returns_at_once:
  assumes "isNaN (ToNumber strnum ambientTemp) \<or> strict_equals (outsideTemp s) ambientTemp"
  shows "setAmbientTemp strnum deviceId ambientTemp env s = Some (env, s)"
  using assms by (auto simp: setAmbientTemp_def)

theorem setAmbientTemp_returns_at_once_witness:
  "(isNaN (ToNumber (\<lambda>str. NaN) (NumV NaN)) \<or> strict_equals (outsideTemp device0) (NumV NaN))
   \<and> (isNaN (ToNumber (\<lambda>str. NaN) (StrV ''warm''))
        \<or> strict_equals (outsideTemp device0) (StrV ''warm''))
   \<and> (isNaN (ToNumber (\<lambda>str. NaN) (NumV (Num 24)))
        \<or> strict_equals (outsideTemp device0) (NumV (Num 24)))
   \<and> setAmbientTemp (\<lambda>str. NaN) ''d'' (NumV NaN) [Throws] device0 = Some ([Throws], device0)
   \<and> setAmbientTemp (\<lambda>str. NaN) ''d'' (StrV ''warm'') [Throws] device0 =
       Some ([Throws], device0)
   \<and> setAmbientTemp (\<lambda>str. NaN) ''d'' (NumV (Num 24)) [Throws] device0 =
       Some ([Throws], device0)"
  using setAmbientTemp_returns_at_once
          [where strnum = "\<lambda>str. NaN" and ambientTemp = "NumV NaN" and s = device0
             and deviceId = "''d''" and env = "[Throws]"]
        setAmbientTemp_returns_at_once
          [where strnum = "\<lambda>str. NaN" and ambientTemp = "StrV ''warm''" and s = device0
             and deviceId = "''d''" and env = "[Throws]"]
        setAmbientTemp_returns_at_once
          [where strnum = "\<lambda>str. NaN" and ambientTemp = "NumV (Num 24)" and s = device0
             and deviceId = "''d''" and env = "[Throws]"]
  by (simp add: device0_def)

text \<open>
  Claim C10 as stated fails for a value that is equal to the stored ambient temperature
  as a number only: the device holds the number 24, and handed the string \<open>'24'\<close>,
  whose coercion is 24, \<open>setAmbientTemp\<close> stores the setting, keeps the string as its
  ambient temperature and writes it to point 100.
\<close>

theorem setAmbientTemp_equal_string_counterexample:
  "outsideTemp device0 = NumV (Num 24)
   \<and> ToNumber (\<lambda>str. if str = ''24'' then Num 24 else NaN) (StrV ''24'') =
       ToNumber (\<lambda>str. if str = ''24'' then Num 24 else NaN) (outsideTemp device0)
   \<and> map_option (new_effects device0 \<circ> snd)
        (setAmbientTemp (\<lambda>str. if str = ''24'' then Num 24 else NaN) ''d'' (StrV ''24'')
           [Returns (Some \<lparr>ok = True\<rparr>)] device0) =
      Some [SetSettings [(''ambient_temperature'', StrV ''24'')],
            SetDevicePoint ''d'' [(Some 100, StrV ''24'')], SetAvailable]
   \<and> map_option (outsideTemp \<circ> snd)
        (setAmbientTemp (\<lambda>str. if str = ''24'' then Num 24 else NaN) ''d'' (StrV ''24'')
           [Returns (Some \<lparr>ok = True\<rparr>)] device0) =
      Some (StrV ''24'')"
  by (simp add: setAmbientTemp_def retry_setDevicePoint.simps Let_def new_effects_def
        emit_def setAvailable_def device0_def)

text \<open>
  Claim C7, as the code has it. The device starts with the constant 12.696 and the tank
  volume 178, and 20 polls log one after the other 20 samples with \<open>tempDiff\<close> -0.3,
  \<open>outerTempDiff\<close> 10, \<open>timeDiff\<close> 300000 and \<open>powDiff\<close> 0. The window then holds
  these 20 samples, the histogram has the one bin \<open>"-0.3"\<close> with count 20 and the gate
  accepts it alone. The gate has done so at every poll from the tenth on, and each of
  these polls has moved the constant to 0.99 times what it was plus 0.01 times
  \<open>k_implied = 4.187 * 178 * (0.3 * 1000000 / (10 * 300000))\<close>: the constant is still
  12.696 after nine samples, \<open>0.99 * 12.696 + 0.01 * k_implied\<close> after the tenth and
  \<open>k_implied - 0.99 ^ 11 * (k_implied - 12.696)\<close> after the twentieth, which lies
  strictly between 12.696 and \<open>k_implied\<close>.
\<close>

theorem scenario_20_samples:
  "leakageConstant_200 device200_0 = Quotient 12.696 \<and> tankVolume device200_0 = 178
   \<and> pastLeakage (cooling_run 20 device200_0) = replicate 20 (cooling_sample 3)
   \<and> count_temp_diffs (pastLeakage (cooling_run 20 device200_0)) ([], 0) =
       ([(Fixed True 3 1, 20)], 20)
   \<and> select_keys [(Fixed True 3 1, 20)] 20 = (Some (Fixed True 3 1), None)
   \<and> leakageConstant_200 (cooling_run 9 device200_0) = Quotient 12.696
   \<and> leakageConstant_200 (cooling_run 10 device200_0) =
       Quotient (0.99 * 12.696 + 0.01 * k_implied)
   \<and> leakageConstant_200 (cooling_run 20 device200_0) =
       Quotient (k_implied - 0.99 ^ 11 * (k_implied - 12.696))
   \<and> 12.696 < k_implied - 0.99 ^ 11 * (k_implied - 12.696)
   \<and> k_implied - 0.99 ^ 11 * (k_implied - 12.696) < k_implied"
proof -
  have k0: "leakageConstant_200 device200_0 = Quotient 12.696" "tankVolume device200_0 = 178"
    by (simp_all add: device200_0_def)
  have r20: "run_state 20 (cooling_run 20 device200_0)"
    by (rule run_state_cooling_run) simp
  have r10: "run_state 10 (cooling_run 10 device200_0)"
    by (rule run_state_cooling_run) simp
  have r9: "run_state 9 (cooling_run 9 device200_0)"
    by (rule run_state_cooling_run) simp
  have win: "pastLeakage (cooling_run 20 device200_0) = replicate 20 (cooling_sample 3)"
    using r20 by (simp add: run_state_def)
  have hist: "count_temp_diffs (replicate 20 (cooling_sample 3)) ([], 0) =
      ([(Fixed True 3 1, 20)], 20)"
    using count_cooling_from_empty[of 19 3] by simp
  have keys: "select_keys [(Fixed True 3 1, 20)] 20 = (Some (Fixed True 3 1), None)"
    using select_single_cooling[of 20] by simp
  have k9: "leakageConstant_200 (cooling_run 9 device200_0) = Quotient 12.696"
    using r9 by (simp add: run_state_def k_after_def)
  have k10: "leakageConstant_200 (cooling_run 10 device200_0) =
      Quotient (0.99 * 12.696 + 0.01 * k_implied)"
    using r10 by (simp add: run_state_def k_after_def k_implied_def)
  have k20: "leakageConstant_200 (cooling_run 20 device200_0) =
      Quotient (k_implied - 0.99 ^ 11 * (k_implied - 12.696))"
    using r20 by (simp add: run_state_def k_after_def)
  have between: "12.696 < k_implied - 0.99 ^ 11 * (k_implied - 12.696)"
      "k_implied - 0.99 ^ 11 * (k_implied - 12.696) < k_implied"
    by (simp_all add: k_implied_def power_divide)
  show ?thesis
    unfolding win
    using k0 hist keys k9 k10 k20 between by (simp only: simp_thms)
qed

text \<open>
  Claim C7 as stated fails: after the 20 samples the constant is not
  \<open>0.99 * 12.696 + 0.01 * k_implied\<close>, the value one update from 12.696 gives and
  which the constant has after the tenth sample; ten more updates have moved it on.
\<close>

theorem scenario_20_samples_counterexample:
  "leakageConstant_200 device200_0 = Quotient 12.696 \<and> tankVolume device200_0 = 178
   \<and> pastLeakage (cooling_run 20 device200_0) = replicate 20 (cooling_sample 3)
   \<and> leakageConstant_200 (cooling_run 20 device200_0) \<noteq>
       Quotient (0.99 * 12.696 + 0.01 * k_implied)
   \<and> leakageConstant_200 (cooling_run 10 device200_0) =
       Quotient (0.99 * 12.696 + 0.01 * k_implied)"
proof -
  have k0: "leakageConstant_200 device200_0 = Quotient 12.696" "tankVolume device200_0 = 178"
    by (simp_all add: device200_0_def)
  have r20: "run_state 20 (cooling_run 20 device200_0)"
    by (rule run_state_cooling_run) simp
  have r10: "run_state 10 (cooling_run 10 device200_0)"
    by (rule run_state_cooling_run) simp
  have win: "pastLeakage (cooling_run 20 device200_0) = replicate 20 (cooling_sample 3)"
    using r20 by (simp add: run_state_def)
  have k10: "leakageConstant_200 (cooling_run 10 device200_0) =
      Quotient (0.99 * 12.696 + 0.01 * k_implied)"
    using r10 by (simp add: run_state_def k_after_def k_implied_def)
  have k20: "leakageConstant_200 (cooling_run 20 device200_0) =
      Quotient (k_implied - 0.99 ^ 11 * (k_implied - 12.696))"
    using r20 by (simp add: run_state_def k_after_def)
  have ne: "k_implied - 0.99 ^ 11 * (k_implied - 12.696) \<noteq> 0.99 * 12.696 + 0.01 * k_implied"
    by (simp add: k_implied_def power_divide)
  show ?thesis
    unfolding win k20
    using k0 k10 ne by simp
qed

text \<open>
  Claim C8, as the code has it. When the new sample is logged, the modal bin \<open>key0\<close> has
  at least 10 entries and the second most frequent bin \<open>key1\<close> is not next to it, the
  gate rejects the data when \<open>count key0 < 3 * count key1\<close>, and the leakage constant
  stays as it was; otherwise, also when \<open>count key0 = 3 * count key1\<close>, it accepts
  \<open>key0\<close> alone and the constant is blended with the constant implied by the entries of
  \<open>key0\<close>.
\<close>

theorem distant_second_bin_gate:
  assumes "hist = count_temp_diffs (pastLeakage (log_sample u t st tm prev s)) ([], 0)"
    and "sortedKeys (fst hist) = key0 # key1 # rest"
    and "snd hist \<noteq> 0"
    and "10 \<le> count_of (fst hist) key0"
    and "not_neighbours key0 key1"
  shows "select_keys (fst hist) (snd hist) =
           (if count_of (fst hist) key0 < 3 * count_of (fst hist) key1 then (None, None)
            else (Some key0, None))
       \<and> leakageConstant_200 (logLeakage_200_sample u t st tm prev s) =
           (if count_of (fst hist) key0 < 3 * count_of (fst hist) key1
            then leakageConstant_200 s
            else js_add (js_mul (Quotient 0.99) (leakageConstant_200 s))
                   (js_mul (Quotient 0.01)
                      (new_leakageConstant (fst hist) key0 None
                         (log_sample u t st tm prev s))))"
proof -
  have keys: "select_keys (fst hist) (snd hist) =
           (if count_of (fst hist) key0 < 3 * count_of (fst hist) key1 then (None, None)
            else (Some key0, None))"
    using assms(2-5) by (simp add: select_keys_def)
  have k: "leakageConstant_200 (log_sample u t st tm prev s) = leakageConstant_200 s"
    by (simp add: log_sample_def)
  show ?thesis
  proof (cases "count_of (fst hist) key0 < 3 * count_of (fst hist) key1")
    case True
    with keys have "fst (select_keys (fst hist) (snd hist)) = None" by simp
    then have "leakageConstant_200 (logLeakage_200_sample u t st tm prev s) =
        leakageConstant_200 s"
      unfolding assms(1) by (rule rejected_keeps_constant)
    with True keys show ?thesis by simp
  next
    case False
    with keys have sel: "select_keys (fst hist) (snd hist) = (Some key0, None)" by simp
    have "leakageConstant_200 (logLeakage_200_sample u t st tm prev s) =
        js_add (js_mul (Quotient 0.99) (leakageConstant_200 s))
          (js_mul (Quotient 0.01)
             (new_leakageConstant (fst hist) key0 None (log_sample u t st tm prev s)))"
      using sel unfolding assms(1)
      by (simp add: logLeakage_200_sample_def Let_def logLeakage_200_tail_def emit_def k)
    with False keys show ?thesis by simp
  qed
qed

theorem distant_second_bin_gate_witness:
  "sortedKeys [(Fixed True 3 1, 12), (Fixed True 7 1, 4)] = [Fixed True 3 1, Fixed True 7 1]
   \<and> sortedKeys [(Fixed True 3 1, 11), (Fixed True 7 1, 4)] = [Fixed True 3 1, Fixed True 7 1]
   \<and> not_neighbours (Fixed True 3 1) (Fixed True 7 1)
   \<and> select_keys [(Fixed True 3 1, 12), (Fixed True 7 1, 4)] 16 = (Some (Fixed True 3 1), None)
   \<and> leakageConstant_200
        (logLeakage_200_sample 1000 34 10 300000 (1000, 343 / 10, 10, 0) device_tie) =
      js_add (js_mul (Quotient 0.99) (leakageConstant_200 device_tie))
        (js_mul (Quotient 0.01)
           (new_leakageConstant [(Fixed True 3 1, 12), (Fixed True 7 1, 4)] (Fixed True 3 1) None
              (log_sample 1000 34 10 300000 (1000, 343 / 10, 10, 0) device_tie)))
   \<and> select_keys [(Fixed True 3 1, 11), (Fixed True 7 1, 4)] 15 = (None, None)
   \<and> leakageConstant_200
        (logLeakage_200_sample 1000 34 10 300000 (1000, 343 / 10, 10, 0) device_noisy) =
      leakageConstant_200 device_noisy"
proof -
  have k12: "sortedKeys [(Fixed True 3 (Suc 0), 12), (Fixed True 7 (Suc 0), 4)] =
     [Fixed True 3 (Suc 0), Fixed True 7 (Suc 0)]"
    using two_bin_keys(1)[of 8 3] by simp
  have k11: "sortedKeys [(Fixed True 3 (Suc 0), 11), (Fixed True 7 (Suc 0), 4)] =
     [Fixed True 3 (Suc 0), Fixed True 7 (Suc 0)]"
    using two_bin_keys(1)[of 7 3] by simp
  show ?thesis
    using
      distant_second_bin_gate
        [of "([(Fixed True 3 (Suc 0), 12), (Fixed True 7 (Suc 0), 4)], 16)"
            1000 34 10 300000 "(1000, 343 / 10, 10, 0)" device_tie
            "Fixed True 3 (Suc 0)" "Fixed True 7 (Suc 0)" "[]"]
      distant_second_bin_gate
        [of "([(Fixed True 3 (Suc 0), 11), (Fixed True 7 (Suc 0), 4)], 15)"
            1000 34 10 300000 "(1000, 343 / 10, 10, 0)" device_noisy
            "Fixed True 3 (Suc 0)" "Fixed True 7 (Suc 0)" "[]"]
      k12 k11 tie_keys(2)
    by (simp add: tie_hist' noisy_hist two_bin_keys)
qed

text \<open>
  Claim C8 as stated fails at equality: with 12 entries in the bin \<open>"-0.3"\<close> and 4 in
  the bin \<open>"-0.7"\<close> the gate accepts \<open>"-0.3"\<close> and the constant moves from 12.696 to
  13.314326.
\<close>

theorem equal_to_three_times_is_accepted_counterexample:
  "count_temp_diffs (replicate 12 (cooling_sample 3) @ replicate 4 (cooling_sample 7)) ([], 0) =
     ([(Fixed True 3 1, 12), (Fixed True 7 1, 4)], 16)
   \<and> pastLeakage tie_result = replicate 12 (cooling_sample 3) @ replicate 4 (cooling_sample 7)
   \<and> not_neighbours (Fixed True 3 1) (Fixed True 7 1)
   \<and> (12::nat) = 3 * 4
   \<and> select_keys [(Fixed True 3 1, 12), (Fixed True 7 1, 4)] 16 = (Some (Fixed True 3 1), None)
   \<and> leakageConstant_200 device_tie = Quotient 12.696
   \<and> leakageConstant_200 tie_result = Quotient 13.314326"
proof -
  let ?td = "[(Fixed True 3 (Suc 0), 12), (Fixed True 7 (Suc 0), 4)]"
  have keys: "select_keys ?td 16 = (Some (Fixed True 3 (Suc 0)), None)"
    by (simp add: select_keys_def tie_keys)
  have k0: "leakageConstant_200 device_tie = Quotient 12.696"
    by (simp add: device_tie_def device200_0_def)
  show ?thesis
    using tie_hist keys tie_result_values(1,2) k0 tie_keys(2) by simp
qed






end
